theory Spec2Isabelle
  imports Complex_Main "HOL-Library.Sublist"
begin

section \<open>Conventions\<close>

text \<open>
  The two modules verified here are \<^verbatim>\<open>src/core/lib/draw-layers.js\<close> (the draw
  orchestrator) and \<^verbatim>\<open>src/core/viewports/orbit-viewport.js\<close> (the orbit camera).

  JavaScript numbers are modelled as \<^typ>\<open>real\<close>: rounding and the non-finite values
  of IEEE doubles have no counterpart here. Counters and list positions are \<^typ>\<open>nat\<close>.
  A JavaScript object used as a dictionary is a map from \<^typ>\<open>string\<close>;
  \<^verbatim>\<open>Object.assign({}, a, b)\<close> is \<open>a ++ b\<close>, the later source winning.
  An exception is a value: every operation that can raise returns a sum, \<open>Inl\<close>
  carrying what was raised, next to the state it leaves behind.
\<close>

section \<open>draw-layers.js: data\<close>

text \<open>Values of GPU parameters and of shader uniforms: flags, numbers, numeric arrays and
  references to objects such as a framebuffer.\<close>

datatype param = PBool bool | PNum real | PVec "real list" | PRef string

type_synonym params = "string \<rightharpoonup> param"

text \<open>What can be raised during a pass: the failed \<^verbatim>\<open>assert\<close> of \<^verbatim>\<open>getPixelRatio\<close>, or
  whatever value a layer's draw operation raises.\<close>

datatype 'e error = AssertionError string | Raised 'e

text \<open>The part of a viewport the orchestrator reads: its rectangle in CSS pixels.\<close>

record viewport =
  vp_x :: real
  vp_y :: real
  vp_width :: real
  vp_height :: real

text \<open>A viewport descriptor is a plain viewport or an object carrying one under the key
  \<^verbatim>\<open>viewport\<close>.\<close>

datatype viewportOrDescriptor = PlainViewport viewport | Descriptor viewport

text \<open>\<^verbatim>\<open>layer.props\<close>: the fields the orchestrator reads. \<open>None\<close> stands for a property
  that is not set.\<close>

record props =
  visible :: bool
  pickable :: bool
  props_parameters :: "params option"
  highlightedObjectIndex :: "int option"

record context_fields =
  context_viewport :: viewport
  context_uniforms :: params

text \<open>\<^verbatim>\<open>moduleParameters\<close>: a copy of the layer's props, extended with the context's
  viewport, the picking flag and, in a picking pass, the picking module's settings.\<close>

record moduleParameters =
  mp_props :: props
  mp_viewport :: viewport
  pickingActive :: nat
  pickingSelectedColor :: "real list option"
  pickingSelectedColorValid :: "bool option"

text \<open>The argument object of \<^verbatim>\<open>layer.drawLayer\<close>.\<close>

record draw_opts =
  opt_moduleParameters :: moduleParameters
  opt_uniforms :: params
  opt_parameters :: params

text \<open>A layer. Its draw operation is foreign code: given its argument and the GPU parameter
  state it runs in, it leaves a GPU parameter state and either returns (\<open>None\<close>) or
  raises a value.\<close>

record 'e layer =
  props :: props
  isComposite :: bool
  layer_context :: context_fields
  encodePickingColor :: "int \<Rightarrow> real list"
  drawLayer :: "draw_opts \<Rightarrow> params \<Rightarrow> 'e option \<times> params"

text \<open>What the orchestrator does to the outside, in order: clearing the buffers, and invoking
  the draw operation of the layer at a position of the list, with its argument and how the
  call ended (\<open>None\<close>: it returned; \<open>Some e\<close>: it raised \<open>e\<close>); each with the GPU
  parameter state in force at that moment.\<close>

datatype 'e gl_call = Clear params | DrawLayer nat draw_opts params "'e option"

record renderStats =
  totalCount :: nat
  visibleCount :: nat
  compositeCount :: nat
  pickableCount :: nat

text \<open>The line \<^verbatim>\<open>logRenderStats\<close> writes: the render number, the visible and total counts,
  the pass and the reason; the breakdown (hidden, composite, pickable) only at a higher
  log priority.\<close>

record log_line =
  line_renderCount :: nat
  line_visibleCount :: nat
  line_totalCount :: nat
  line_pass :: string
  line_redrawReason :: string
  line_detail :: "(int \<times> nat \<times> nat) option"

text \<open>Everything a pass reads or changes besides its arguments: the graphics context
  (canvas height when there is a canvas, drawing buffer size, GPU parameter state, the calls
  made so far), the host's \<^verbatim>\<open>window.devicePixelRatio\<close> (\<open>None\<close> without a window), the
  log (priority and lines written) and the module's render counter.\<close>

record 'e world =
  canvas_clientHeight :: "real option"
  drawingBufferWidth :: real
  drawingBufferHeight :: real
  gl_state :: params
  gl_calls :: "'e gl_call list"
  window_devicePixelRatio :: "real option"
  log_priority :: real
  log_lines :: "log_line list"
  renderCount :: nat

section \<open>The graphics library's parameter scoping\<close>

text \<open>\<^verbatim>\<open>setParameters\<close> and \<^verbatim>\<open>withParameters\<close> are imported from luma.gl, which is not
  among the sources; they are modelled as the library runs. \<^verbatim>\<open>setParameters\<close> merges the
  given parameters into the GPU parameter state. \<^verbatim>\<open>withParameters\<close> saves the state, applies
  the parameters and runs the callback; it puts the saved state back when the callback
  returns, and when the callback raises only if the parameters carry \<^verbatim>\<open>nocatch: false\<close>
  (the key defaults to true). The spec's glossary describes a scoped application that restores
  the prior state unconditionally; draw-layers.js never passes the key.\<close>

definition setParameters :: "params \<Rightarrow> 'e world \<Rightarrow> 'e world" where
  "setParameters ps w = w\<lparr>gl_state := gl_state w ++ ps\<rparr>"

definition nocatch :: "params \<Rightarrow> bool" where
  "nocatch ps =
     (case ps ''nocatch'' of
        None \<Rightarrow> True
      | Some (PBool b) \<Rightarrow> b
      | Some (PNum n) \<Rightarrow> n \<noteq> 0
      | Some (PVec v) \<Rightarrow> True
      | Some (PRef x) \<Rightarrow> True)"

definition withParameters ::
  "params \<Rightarrow> ('e world \<Rightarrow> ('x + 'a) \<times> 'e world) \<Rightarrow> 'e world \<Rightarrow> ('x + 'a) \<times> 'e world" where
  "withParameters ps func w =
     (let prior = gl_state w;
          (r, w') = func (setParameters ps w)
      in if nocatch ps \<and> isl r then (r, w') else (r, w'\<lparr>gl_state := prior\<rparr>))"

section \<open>draw-layers.js: operations\<close>

definition LOG_PRIORITY_DRAW :: real where
  "LOG_PRIORITY_DRAW = 2"

text \<open>\<^verbatim>\<open>getPixelRatio\<close>: the flag must be a boolean (\<open>None\<close> is any other value).\<close>

definition getPixelRatio :: "bool option \<Rightarrow> 'e world \<Rightarrow> 'e error + real" where
  "getPixelRatio useDevicePixelRatio w =
     (case useDevicePixelRatio of
        None \<Rightarrow> Inl (AssertionError ''Invalid useDevicePixelRatio'')
      | Some b \<Rightarrow>
          (case window_devicePixelRatio w of
             Some r \<Rightarrow> Inr (if b then r else 1)
           | None \<Rightarrow> Inr 1))"

text \<open>\<^verbatim>\<open>getGLViewport\<close>: top-left CSS coordinates to bottom-up device coordinates.\<close>

definition getGLViewport :: "'e world \<Rightarrow> viewport \<Rightarrow> real \<Rightarrow> real list" where
  "getGLViewport w dimensions pixelRatio =
     (let height = (case canvas_clientHeight w of Some h \<Rightarrow> h | None \<Rightarrow> 100)
      in [vp_x dimensions * pixelRatio,
          (height - vp_y dimensions - vp_height dimensions) * pixelRatio,
          vp_width dimensions * pixelRatio,
          vp_height dimensions * pixelRatio])"

definition clearCanvas :: "'e world \<Rightarrow> 'e world" where
  "clearCanvas w =
     (let width = drawingBufferWidth w;
          height = drawingBufferHeight w
      in snd (withParameters [''viewport'' \<mapsto> PVec [0, 0, width, height]]
                (\<lambda>w1. (Inr () :: unit + unit, w1\<lparr>gl_calls := gl_calls w1 @ [Clear (gl_state w1)]\<rparr>)) w))"

definition getViewportFromDescriptor :: "viewportOrDescriptor \<Rightarrow> viewport" where
  "getViewportFromDescriptor viewportOrDescriptor =
     (case viewportOrDescriptor of Descriptor v \<Rightarrow> v | PlainViewport v \<Rightarrow> v)"

text \<open>\<^verbatim>\<open>getPickingModuleParameters\<close>: \<open>None\<close> is the \<^verbatim>\<open>null\<close> it returns when no
  object is highlighted.\<close>

definition getPickingModuleParameters :: "'e layer \<Rightarrow> (real list \<times> bool) option" where
  "getPickingModuleParameters layer =
     (case highlightedObjectIndex (props layer) of
        None \<Rightarrow> None
      | Some i \<Rightarrow> if i \<ge> 0 then Some (encodePickingColor layer i, True) else None)"

text \<open>The three objects \<^verbatim>\<open>drawLayerInViewport\<close> resolves before it calls the layer.\<close>

definition resolve_moduleParameters :: "'e layer \<Rightarrow> bool \<Rightarrow> moduleParameters" where
  "resolve_moduleParameters layer drawPickingColors =
     (let mp = \<lparr>mp_props = props layer,
                mp_viewport = context_viewport (layer_context layer),
                pickingActive = (if drawPickingColors then 1 else 0),
                pickingSelectedColor = None,
                pickingSelectedColorValid = None\<rparr>
      in if drawPickingColors then
           (case getPickingModuleParameters layer of
              None \<Rightarrow> mp
            | Some (c, v) \<Rightarrow> mp\<lparr>pickingSelectedColor := Some c, pickingSelectedColorValid := Some v\<rparr>)
         else mp)"

definition resolve_uniforms :: "'e layer \<Rightarrow> nat \<Rightarrow> bool \<Rightarrow> params" where
  "resolve_uniforms layer layerIndex drawPickingColors =
     (let pickingUniforms =
            [''renderPickingBuffer'' \<mapsto> PNum (if drawPickingColors then 1 else 0),
             ''pickingEnabled'' \<mapsto> PNum (if drawPickingColors then 1 else 0)]
      in pickingUniforms ++ context_uniforms (layer_context layer) ++ [''layerIndex'' \<mapsto> PNum (real layerIndex)])"

definition resolve_layerParameters ::
  "'e layer \<Rightarrow> nat \<Rightarrow> bool \<Rightarrow> real list \<Rightarrow> params option \<Rightarrow> params" where
  "resolve_layerParameters layer layerIndex drawPickingColors glViewport pass_parameters =
     (let layerParameters =
            (case props_parameters (props layer) of None \<Rightarrow> Map.empty | Some p \<Rightarrow> p)
              ++ (case pass_parameters of None \<Rightarrow> Map.empty | Some p \<Rightarrow> p);
          layerParameters = layerParameters(''viewport'' \<mapsto> PVec glViewport)
      in if drawPickingColors then
           layerParameters(''blendColor'' \<mapsto> PVec [0, 0, 0, (real layerIndex + 1) / 255])
         else layerParameters)"

definition drawLayerInViewport ::
  "'e layer \<Rightarrow> nat \<Rightarrow> bool \<Rightarrow> real list \<Rightarrow> params option \<Rightarrow> 'e world \<Rightarrow> ('e error + unit) \<times> 'e world" where
  "drawLayerInViewport layer layerIndex drawPickingColors glViewport pass_parameters w =
     (let moduleParameters = resolve_moduleParameters layer drawPickingColors;
          uniforms = resolve_uniforms layer layerIndex drawPickingColors;
          layerParameters =
            resolve_layerParameters layer layerIndex drawPickingColors glViewport pass_parameters;
          opts = \<lparr>opt_moduleParameters = moduleParameters,
                  opt_uniforms = uniforms,
                  opt_parameters = layerParameters\<rparr>
      in withParameters layerParameters
           (\<lambda>w1. case drawLayer layer opts (gl_state w1) of
                    (r, s) \<Rightarrow>
                      ((case r of None \<Rightarrow> Inr () | Some e \<Rightarrow> Inl (Raised e)),
                       w1\<lparr>gl_calls := gl_calls w1 @ [DrawLayer layerIndex opts (gl_state w1) r],
                          gl_state := s\<rparr>))
           w)"

text \<open>The test at the head of the loop body of \<^verbatim>\<open>drawLayersInViewport\<close>.\<close>

definition shouldDrawLayer ::
  "bool \<Rightarrow> ('e layer \<Rightarrow> viewport \<Rightarrow> bool \<Rightarrow> bool) option \<Rightarrow> viewport \<Rightarrow> 'e layer \<Rightarrow> bool" where
  "shouldDrawLayer drawPickingColors layerFilter vp layer =
     (let should = visible (props layer);
          should = (if drawPickingColors then should \<and> pickable (props layer) else should)
      in case layerFilter of
           Some f \<Rightarrow> if should then f layer vp drawPickingColors else should
         | None \<Rightarrow> should)"

text \<open>One turn of \<^verbatim>\<open>layers.forEach\<close>: the statistics, then the draw.\<close>

definition layer_step ::
  "bool \<Rightarrow> ('e layer \<Rightarrow> viewport \<Rightarrow> bool \<Rightarrow> bool) option \<Rightarrow> viewport \<Rightarrow> real list \<Rightarrow> params option \<Rightarrow>
   'e layer \<Rightarrow> nat \<Rightarrow> renderStats \<Rightarrow> 'e world \<Rightarrow> ('e error + renderStats) \<times> 'e world" where
  "layer_step drawPickingColors layerFilter vp glViewport pass_parameters layer layerIndex stats w =
     (let should = shouldDrawLayer drawPickingColors layerFilter vp layer;
          stats = (if should \<and> pickable (props layer)
                   then stats\<lparr>pickableCount := pickableCount stats + 1\<rparr> else stats);
          stats = (if isComposite layer
                   then stats\<lparr>compositeCount := compositeCount stats + 1\<rparr> else stats)
      in if should then
           (let stats = (if \<not> isComposite layer
                         then stats\<lparr>visibleCount := visibleCount stats + 1\<rparr> else stats)
            in case drawLayerInViewport layer layerIndex drawPickingColors glViewport pass_parameters w of
                 (Inl e, w') \<Rightarrow> (Inl e, w')
               | (Inr u, w') \<Rightarrow> (Inr stats, w'))
         else (Inr stats, w))"

text \<open>\<^verbatim>\<open>layers.forEach\<close>, from position \<open>layerIndex\<close> on: a raise ends it.\<close>

fun layers_forEach ::
  "bool \<Rightarrow> ('e layer \<Rightarrow> viewport \<Rightarrow> bool \<Rightarrow> bool) option \<Rightarrow> viewport \<Rightarrow> real list \<Rightarrow> params option \<Rightarrow>
   'e layer list \<Rightarrow> nat \<Rightarrow> renderStats \<Rightarrow> 'e world \<Rightarrow> ('e error + renderStats) \<times> 'e world" where
  "layers_forEach drawPickingColors layerFilter vp glViewport pass_parameters [] layerIndex stats w =
     (Inr stats, w)"
| "layers_forEach drawPickingColors layerFilter vp glViewport pass_parameters (layer # rest) layerIndex stats w =
     (case layer_step drawPickingColors layerFilter vp glViewport pass_parameters layer layerIndex stats w of
        (Inl e, w') \<Rightarrow> (Inl e, w')
      | (Inr stats', w') \<Rightarrow>
          layers_forEach drawPickingColors layerFilter vp glViewport pass_parameters rest (Suc layerIndex) stats' w')"

text \<open>\<^verbatim>\<open>drawLayersInViewport\<close>: the statistics as they are initialised, the line for the
  log, and the function itself. Its parameter \<^verbatim>\<open>deviceRect\<close>, which its body does not read,
  is left out.\<close>

definition initial_renderStats :: "'e layer list \<Rightarrow> renderStats" where
  "initial_renderStats layers =
     \<lparr>totalCount = length layers, visibleCount = 0, compositeCount = 0, pickableCount = 0\<rparr>"

definition logRenderStats :: "renderStats \<Rightarrow> string \<Rightarrow> string \<Rightarrow> 'e world \<Rightarrow> 'e world" where
  "logRenderStats stats pass redrawReason w =
     (if log_priority w \<ge> LOG_PRIORITY_DRAW then
        (let primitiveCount = int (totalCount stats) - int (compositeCount stats);
             hiddenCount = primitiveCount - int (visibleCount stats);
             message = \<lparr>line_renderCount = renderCount w,
                        line_visibleCount = visibleCount stats,
                        line_totalCount = totalCount stats,
                        line_pass = pass,
                        line_redrawReason = redrawReason,
                        line_detail =
                          (if log_priority w > LOG_PRIORITY_DRAW
                           then Some (hiddenCount, compositeCount stats, pickableCount stats)
                           else None)\<rparr>
         in w\<lparr>log_lines := log_lines w @ [message]\<rparr>)
      else w)"

definition drawLayersInViewport ::
  "'e layer list \<Rightarrow> viewport \<Rightarrow> bool option \<Rightarrow> bool \<Rightarrow> params option \<Rightarrow>
   ('e layer \<Rightarrow> viewport \<Rightarrow> bool \<Rightarrow> bool) option \<Rightarrow> string \<Rightarrow> string \<Rightarrow> 'e world \<Rightarrow> ('e error + unit) \<times> 'e world" where
  "drawLayersInViewport layers vp useDevicePixelRatio drawPickingColors pass_parameters layerFilter
     pass redrawReason w =
     (case getPixelRatio useDevicePixelRatio w of
        Inl e \<Rightarrow> (Inl e, w)
      | Inr pixelRatio \<Rightarrow>
          (let glViewport = getGLViewport w vp pixelRatio;
               stats = initial_renderStats layers;
               w1 = setParameters (case pass_parameters of None \<Rightarrow> Map.empty | Some p \<Rightarrow> p) w
           in case layers_forEach drawPickingColors layerFilter vp glViewport pass_parameters
                     layers 0 stats w1 of
                (Inl e, w2) \<Rightarrow> (Inl e, w2)
              | (Inr stats', w2) \<Rightarrow>
                  (Inr (), logRenderStats stats' pass redrawReason (w2\<lparr>renderCount := renderCount w2 + 1\<rparr>))))"

text \<open>\<^verbatim>\<open>viewports.forEach\<close> of \<^verbatim>\<open>drawLayers\<close>. The callback \<^verbatim>\<open>onViewportActive\<close> is foreign
  code that may update the layers (their contexts) for the viewport becoming active.\<close>

fun viewports_forEach ::
  "(viewport \<Rightarrow> 'e layer list \<Rightarrow> 'e layer list) \<Rightarrow> bool option \<Rightarrow> bool \<Rightarrow> params option \<Rightarrow>
   ('e layer \<Rightarrow> viewport \<Rightarrow> bool \<Rightarrow> bool) option \<Rightarrow> string \<Rightarrow> string \<Rightarrow>
   viewportOrDescriptor list \<Rightarrow> 'e layer list \<Rightarrow> 'e world \<Rightarrow> ('e error + unit) \<times> 'e world" where
  "viewports_forEach onViewportActive useDevicePixelRatio drawPickingColors pass_parameters layerFilter
     pass redrawReason [] layers w = (Inr (), w)"
| "viewports_forEach onViewportActive useDevicePixelRatio drawPickingColors pass_parameters layerFilter
     pass redrawReason (viewportOrDescriptor # rest) layers w =
     (let vp = getViewportFromDescriptor viewportOrDescriptor;
          layers = onViewportActive vp layers
      in case drawLayersInViewport layers vp useDevicePixelRatio drawPickingColors pass_parameters
                layerFilter pass redrawReason w of
           (Inl e, w') \<Rightarrow> (Inl e, w')
         | (Inr u, w') \<Rightarrow>
             viewports_forEach onViewportActive useDevicePixelRatio drawPickingColors pass_parameters
               layerFilter pass redrawReason rest layers w')"

definition drawLayers ::
  "'e layer list \<Rightarrow> viewportOrDescriptor list \<Rightarrow> (viewport \<Rightarrow> 'e layer list \<Rightarrow> 'e layer list) \<Rightarrow>
   bool option \<Rightarrow> bool \<Rightarrow> params option \<Rightarrow> ('e layer \<Rightarrow> viewport \<Rightarrow> bool \<Rightarrow> bool) option \<Rightarrow>
   string \<Rightarrow> string \<Rightarrow> 'e world \<Rightarrow> ('e error + unit) \<times> 'e world" where
  "drawLayers layers viewports onViewportActive useDevicePixelRatio drawPickingColors pass_parameters
     layerFilter pass redrawReason w =
     viewports_forEach onViewportActive useDevicePixelRatio drawPickingColors pass_parameters
       layerFilter pass redrawReason viewports layers (clearCanvas w)"

text \<open>The constants of the WebGL interface that \<^verbatim>\<open>drawPickingBuffer\<close> reads from the
  context.\<close>

definition GL_ZERO :: real where "GL_ZERO = 0"
definition GL_ONE :: real where "GL_ONE = 1"
definition GL_CONSTANT_ALPHA :: real where "GL_CONSTANT_ALPHA = 32771"
definition GL_FUNC_ADD :: real where "GL_FUNC_ADD = 32774"

definition picking_parameters :: params where
  "picking_parameters =
     [''blend'' \<mapsto> PBool True,
      ''blendFunc'' \<mapsto> PVec [GL_ONE, GL_ZERO, GL_CONSTANT_ALPHA, GL_ZERO],
      ''blendEquation'' \<mapsto> PNum GL_FUNC_ADD,
      ''blendColor'' \<mapsto> PVec [0, 0, 0, 0]]"

definition drawPickingBuffer ::
  "'e layer list \<Rightarrow> viewportOrDescriptor list \<Rightarrow> (viewport \<Rightarrow> 'e layer list \<Rightarrow> 'e layer list) \<Rightarrow>
   bool option \<Rightarrow> string \<Rightarrow> real \<times> real \<times> real \<times> real \<Rightarrow>
   ('e layer \<Rightarrow> viewport \<Rightarrow> bool \<Rightarrow> bool) option \<Rightarrow> string \<Rightarrow> 'e world \<Rightarrow> ('e error + unit) \<times> 'e world" where
  "drawPickingBuffer layers viewports onViewportActive useDevicePixelRatio pickingFBO deviceRect
     layerFilter redrawReason w =
     (case deviceRect of
        (x, y, width, height) \<Rightarrow>
          withParameters
            [''framebuffer'' \<mapsto> PRef pickingFBO,
             ''scissorTest'' \<mapsto> PBool True,
             ''scissor'' \<mapsto> PVec [x, y, width, height],
             ''clearColor'' \<mapsto> PVec [0, 0, 0, 0]]
            (drawLayers layers viewports onViewportActive useDevicePixelRatio True
               (Some picking_parameters) layerFilter ''picking'' redrawReason)
            w)"

section \<open>orbit-viewport.js\<close>

text \<open>
  The module imports the base class \<^verbatim>\<open>Viewport\<close>, eight functions of gl-mat4 and
  \<^verbatim>\<open>transformVector\<close>; none of them is among the sources. They are parameters of the model,
  gathered in one record, and what is proved below holds for every such record, or for every
  such record that meets the contract the statement names. A gl-mat4
  function writes its result into its first argument and returns it; here it is a function
  of its other arguments, so \<^verbatim>\<open>mat4_rotateZ(m, m, a)\<close> is \<open>mat4_rotateZ I m a\<close>. The module
  itself neither raises nor catches, and the imported functions are taken to return.
  A matrix is the array of its 16 entries, a point a triple, a homogeneous vector a
  quadruple.
\<close>

type_synonym mat4 = "real list"
type_synonym vec3 = "real \<times> real \<times> real"
type_synonym vec4 = "real \<times> real \<times> real \<times> real"

text \<open>What the base class contributes to an orbit viewport and the module reads back: the
  matrix \<^verbatim>\<open>project\<close> transforms by and the matrix \<^verbatim>\<open>unproject\<close> transforms by.\<close>

record viewport_base =
  pixelProjectionMatrix :: mat4
  pixelUnprojectionMatrix :: mat4

record orbit_imports =
  Viewport :: "mat4 \<Rightarrow> mat4 \<Rightarrow> real \<Rightarrow> real \<Rightarrow> viewport_base"
  mat4_multiply :: "mat4 \<Rightarrow> mat4 \<Rightarrow> mat4"
  mat4_lookAt :: "vec3 \<Rightarrow> vec3 \<Rightarrow> vec3 \<Rightarrow> mat4"
  mat4_scale :: "mat4 \<Rightarrow> vec3 \<Rightarrow> mat4"
  mat4_perspective :: "real \<Rightarrow> real \<Rightarrow> real \<Rightarrow> real \<Rightarrow> mat4"
  mat4_translate :: "mat4 \<Rightarrow> vec3 \<Rightarrow> mat4"
  mat4_rotateX :: "mat4 \<Rightarrow> real \<Rightarrow> mat4"
  mat4_rotateY :: "mat4 \<Rightarrow> real \<Rightarrow> mat4"
  mat4_rotateZ :: "mat4 \<Rightarrow> real \<Rightarrow> mat4"
  transformVector :: "mat4 \<Rightarrow> vec4 \<Rightarrow> vec4"

definition DEGREES_TO_RADIANS :: real where
  "DEGREES_TO_RADIANS = pi / 180"

definition createMat4 :: mat4 where
  "createMat4 = [1, 0, 0, 0, 0, 1, 0, 0, 0, 0, 1, 0, 0, 0, 0, 1]"

text \<open>The argument object of the constructor: \<open>None\<close> is a key that is absent, for the
  keys that have a default.\<close>

record OrbitViewport_args =
  arg_width :: real
  arg_height :: real
  arg_distance :: real
  arg_rotationX :: "real option"
  arg_rotationOrbit :: "real option"
  arg_orbitAxis :: "string option"
  arg_lookAt :: "vec3 option"
  arg_up :: "vec3 option"
  arg_fov :: "real option"
  arg_near :: "real option"
  arg_far :: "real option"
  arg_zoom :: "real option"

text \<open>The constructed object: what the base constructor built, and the twelve fields the
  constructor stores.\<close>

record OrbitViewport =
  base :: viewport_base
  width :: real
  height :: real
  distance :: real
  rotationX :: real
  rotationOrbit :: real
  orbitAxis :: string
  lookAt :: vec3
  up :: vec3
  fov :: real
  near :: real
  far :: real
  zoom :: real

definition default_to :: "'a \<Rightarrow> 'a option \<Rightarrow> 'a" where
  "default_to d v = (case v of None \<Rightarrow> d | Some x \<Rightarrow> x)"

text \<open>The argument object of the \<^verbatim>\<open>super\<close> call.\<close>

record super_arguments =
  super_viewMatrix :: mat4
  super_projectionMatrix :: mat4
  super_width :: real
  super_height :: real

text \<open>The constructor, in two steps: the matrices it computes and hands to \<^verbatim>\<open>super\<close>, then
  the object.\<close>

definition OrbitViewport_super :: "orbit_imports \<Rightarrow> OrbitViewport_args \<Rightarrow> super_arguments" where
  "OrbitViewport_super I a =
     (let rotationX = default_to 0 (arg_rotationX a);
          rotationOrbit = default_to 0 (arg_rotationOrbit a);
          orbitAxis = default_to ''Z'' (arg_orbitAxis a);
          lookAt = default_to (0, 0, 0) (arg_lookAt a);
          up = default_to (0, 1, 0) (arg_up a);
          fov = default_to 75 (arg_fov a);
          near = default_to 1 (arg_near a);
          far = default_to 100 (arg_far a);
          zoom = default_to 1 (arg_zoom a);
          rotationMatrix = mat4_rotateX I createMat4 (- rotationX / 180 * pi);
          rotationMatrix =
            (if orbitAxis = ''Z'' then mat4_rotateZ I rotationMatrix (- rotationOrbit / 180 * pi)
             else mat4_rotateY I rotationMatrix (- rotationOrbit / 180 * pi));
          translateMatrix = createMat4;
          translateMatrix = mat4_scale I translateMatrix (zoom, zoom, zoom);
          translateMatrix =
            (case lookAt of (l0, l1, l2) \<Rightarrow> mat4_translate I translateMatrix (- l0, - l1, - l2));
          viewMatrix = mat4_lookAt I (0, 0, arg_distance a) (0, 0, 0) up;
          fovRadians = fov * DEGREES_TO_RADIANS;
          aspect = arg_width a / arg_height a;
          perspectiveMatrix = mat4_perspective I fovRadians aspect near far
      in \<lparr>super_viewMatrix =
            mat4_multiply I viewMatrix (mat4_multiply I rotationMatrix translateMatrix),
          super_projectionMatrix = perspectiveMatrix,
          super_width = arg_width a,
          super_height = arg_height a\<rparr>)"

definition OrbitViewport_new :: "orbit_imports \<Rightarrow> OrbitViewport_args \<Rightarrow> OrbitViewport" where
  "OrbitViewport_new I a =
     (let s = OrbitViewport_super I a
      in \<lparr>base = Viewport I (super_viewMatrix s) (super_projectionMatrix s) (super_width s) (super_height s),
          width = arg_width a,
          height = arg_height a,
          distance = arg_distance a,
          rotationX = default_to 0 (arg_rotationX a),
          rotationOrbit = default_to 0 (arg_rotationOrbit a),
          orbitAxis = default_to ''Z'' (arg_orbitAxis a),
          lookAt = default_to (0, 0, 0) (arg_lookAt a),
          up = default_to (0, 1, 0) (arg_up a),
          fov = default_to 75 (arg_fov a),
          near = default_to 1 (arg_near a),
          far = default_to 100 (arg_far a),
          zoom = default_to 1 (arg_zoom a)\<rparr>)"

text \<open>\<^verbatim>\<open>project\<close>: \<open>opts\<close> is the value of \<^verbatim>\<open>topLeft\<close> when the caller gives one.\<close>

definition project :: "orbit_imports \<Rightarrow> OrbitViewport \<Rightarrow> vec3 \<Rightarrow> bool option \<Rightarrow> vec3" where
  "project I this xyz opts =
     (let topLeft = default_to False opts
      in case xyz of
           (x0, y0, z0) \<Rightarrow>
             (case transformVector I (pixelProjectionMatrix (base this)) (x0, y0, z0, 1) of
                (x, y, z, w) \<Rightarrow>
                  (let y2 = (if topLeft then height this - y else y)
                   in (x, y2, z))))"

text \<open>\<^verbatim>\<open>unproject\<close>: it returns what \<^verbatim>\<open>transformVector\<close> returns, a homogeneous vector.\<close>

definition unproject :: "orbit_imports \<Rightarrow> OrbitViewport \<Rightarrow> vec3 \<Rightarrow> bool option \<Rightarrow> vec4" where
  "unproject I this xyz opts =
     (let topLeft = default_to False opts
      in case xyz of
           (x, y, z) \<Rightarrow>
             (let y2 = (if topLeft then height this - y else y)
              in transformVector I (pixelUnprojectionMatrix (base this)) (x, y2, z, 1)))"

text \<open>\<^verbatim>\<open>fitBounds\<close>. It also reads \<^verbatim>\<open>translationX\<close> and \<^verbatim>\<open>translationY\<close> from the
  object, which has no such fields, and passes them on to the constructor, which has no such
  parameters.\<close>

definition fitBounds :: "orbit_imports \<Rightarrow> OrbitViewport \<Rightarrow> vec3 \<Rightarrow> OrbitViewport" where
  "fitBounds I this mx =
     (case mx of
        (max0, max1, max2) \<Rightarrow>
          (let size = max (max max0 max1) max2;
               newDistance = size / tan (fov this / 180 * pi / 2)
           in OrbitViewport_new I
                \<lparr>arg_width = width this,
                 arg_height = height this,
                 arg_distance = newDistance,
                 arg_rotationX = Some (rotationX this),
                 arg_rotationOrbit = Some (rotationOrbit this),
                 arg_orbitAxis = Some (orbitAxis this),
                 arg_lookAt = Some (lookAt this),
                 arg_up = Some (up this),
                 arg_fov = Some (fov this),
                 arg_near = Some (near this),
                 arg_far = Some (far this),
                 arg_zoom = Some (zoom this)\<rparr>))"

section \<open>Reading the record of calls\<close>

text \<open>The calls made between two states of the world, the list positions of the layers whose
  draw operation was invoked, in the order of the calls, what a call raised, and the value
  of a parameter a draw call was given.\<close>

definition calls_since :: "'e world \<Rightarrow> 'e world \<Rightarrow> 'e gl_call list" where
  "calls_since w w' = drop (length (gl_calls w)) (gl_calls w')"

fun drawn_positions :: "'e gl_call list \<Rightarrow> nat list" where
  "drawn_positions [] = []"
| "drawn_positions (Clear s # cs) = drawn_positions cs"
| "drawn_positions (DrawLayer i opts s r # cs) = i # drawn_positions cs"

fun raised :: "'e gl_call \<Rightarrow> 'e option" where
  "raised (Clear s) = None"
| "raised (DrawLayer i opts s r) = r"

fun parameter_of :: "string \<Rightarrow> 'e gl_call \<Rightarrow> param option" where
  "parameter_of k (Clear s) = None"
| "parameter_of k (DrawLayer i opts s r) = opt_parameters opts k"

text \<open>The call that drawing a layer at a list position makes when the GPU parameter state
  is \<open>s0\<close>, the GPU parameter state that drawing it leaves, the calls of a whole list when
  none raises, and what one layer adds to the statistics.\<close>

definition layer_call ::
  "'e layer \<Rightarrow> nat \<Rightarrow> bool \<Rightarrow> real list \<Rightarrow> params option \<Rightarrow> params \<Rightarrow> 'e gl_call" where
  "layer_call layer layerIndex drawPickingColors glViewport pass_parameters s0 =
     (let opts = \<lparr>opt_moduleParameters = resolve_moduleParameters layer drawPickingColors,
                  opt_uniforms = resolve_uniforms layer layerIndex drawPickingColors,
                  opt_parameters =
                    resolve_layerParameters layer layerIndex drawPickingColors glViewport pass_parameters\<rparr>;
          s = s0 ++ opt_parameters opts
      in DrawLayer layerIndex opts s (fst (drawLayer layer opts s)))"

definition layer_leaves ::
  "'e layer \<Rightarrow> nat \<Rightarrow> bool \<Rightarrow> real list \<Rightarrow> params option \<Rightarrow> params \<Rightarrow> params" where
  "layer_leaves layer layerIndex drawPickingColors glViewport pass_parameters s0 =
     (let opts = \<lparr>opt_moduleParameters = resolve_moduleParameters layer drawPickingColors,
                  opt_uniforms = resolve_uniforms layer layerIndex drawPickingColors,
                  opt_parameters =
                    resolve_layerParameters layer layerIndex drawPickingColors glViewport pass_parameters\<rparr>;
          s = s0 ++ opt_parameters opts
      in if nocatch (opt_parameters opts) \<and> fst (drawLayer layer opts s) \<noteq> None
         then snd (drawLayer layer opts s) else s0)"

definition eligible_calls ::
  "bool \<Rightarrow> ('e layer \<Rightarrow> viewport \<Rightarrow> bool \<Rightarrow> bool) option \<Rightarrow> viewport \<Rightarrow> real list \<Rightarrow> params option \<Rightarrow>
   params \<Rightarrow> nat \<Rightarrow> 'e layer list \<Rightarrow> 'e gl_call list" where
  "eligible_calls D F vp g pp s0 i ls =
     map (\<lambda>(j, l). layer_call l j D g pp s0)
       (filter (\<lambda>(j, l). shouldDrawLayer D F vp l) (enumerate i ls))"

definition count_layer :: "bool \<Rightarrow> 'e layer \<Rightarrow> renderStats \<Rightarrow> renderStats" where
  "count_layer should layer stats =
     stats\<lparr>pickableCount := pickableCount stats + (if should \<and> pickable (props layer) then 1 else 0),
           compositeCount := compositeCount stats + (if isComposite layer then 1 else 0),
           visibleCount := visibleCount stats + (if should \<and> \<not> isComposite layer then 1 else 0)\<rparr>"

section \<open>Sample values\<close>

text \<open>A viewport, a world and layers to run the orchestrator on: an 800 by 600 canvas on a
  host of device pixel ratio 2, and layers that differ in their flags, in their own
  parameters and in whether their draw operation returns or raises; every draw operation
  leaves the line width changed behind it.\<close>

definition sample_viewport :: viewport where
  "sample_viewport = \<lparr>vp_x = 0, vp_y = 0, vp_width = 800, vp_height = 600\<rparr>"

definition sample_world :: "string world" where
  "sample_world =
     \<lparr>canvas_clientHeight = Some 600, drawingBufferWidth = 1600, drawingBufferHeight = 1200,
      gl_state = Map.empty, gl_calls = [], window_devicePixelRatio = Some 2,
      log_priority = 3, log_lines = [], renderCount = 0\<rparr>"

definition sample_layer :: "bool \<Rightarrow> bool \<Rightarrow> params option \<Rightarrow> string option \<Rightarrow> string layer" where
  "sample_layer v p ps outcome =
     \<lparr>props = \<lparr>visible = v, pickable = p, props_parameters = ps, highlightedObjectIndex = None\<rparr>,
      isComposite = False,
      layer_context = \<lparr>context_viewport = sample_viewport, context_uniforms = Map.empty\<rparr>,
      encodePickingColor = (\<lambda>i. [real_of_int i, 0, 0]),
      drawLayer = (\<lambda>opts s. (outcome, s(''lineWidth'' \<mapsto> PNum 3)))\<rparr>"

text \<open>An instance of the imports of orbit-viewport.js, to run the camera on. gl-mat4 is a
  library outside the repository: the matrix functions below follow its documented
  conventions (column-major arrays; \<^verbatim>\<open>rotate\<close>, \<^verbatim>\<open>scale\<close> and \<^verbatim>\<open>translate\<close> multiply the
  given matrix from the right).\<close>

definition ref_multiply :: "mat4 \<Rightarrow> mat4 \<Rightarrow> mat4" where
  "ref_multiply a b =
     map (\<lambda>n. \<Sum>k\<leftarrow>[0..<4]. a ! (4 * k + n mod 4) * b ! (4 * (n div 4) + k)) [0..<16]"

definition ref_rotateX :: "mat4 \<Rightarrow> real \<Rightarrow> mat4" where
  "ref_rotateX a rad =
     ref_multiply a [1, 0, 0, 0, 0, cos rad, sin rad, 0, 0, - sin rad, cos rad, 0, 0, 0, 0, 1]"

definition ref_rotateY :: "mat4 \<Rightarrow> real \<Rightarrow> mat4" where
  "ref_rotateY a rad =
     ref_multiply a [cos rad, 0, - sin rad, 0, 0, 1, 0, 0, sin rad, 0, cos rad, 0, 0, 0, 0, 1]"

definition ref_rotateZ :: "mat4 \<Rightarrow> real \<Rightarrow> mat4" where
  "ref_rotateZ a rad =
     ref_multiply a [cos rad, sin rad, 0, 0, - sin rad, cos rad, 0, 0, 0, 0, 1, 0, 0, 0, 0, 1]"

definition ref_scale :: "mat4 \<Rightarrow> vec3 \<Rightarrow> mat4" where
  "ref_scale a v =
     (case v of (x, y, z) \<Rightarrow> ref_multiply a [x, 0, 0, 0, 0, y, 0, 0, 0, 0, z, 0, 0, 0, 0, 1])"

definition ref_translate :: "mat4 \<Rightarrow> vec3 \<Rightarrow> mat4" where
  "ref_translate a v =
     (case v of (x, y, z) \<Rightarrow> ref_multiply a [1, 0, 0, 0, 0, 1, 0, 0, 0, 0, 1, 0, x, y, z, 1])"

definition ref_perspective :: "real \<Rightarrow> real \<Rightarrow> real \<Rightarrow> real \<Rightarrow> mat4" where
  "ref_perspective fovy aspect znear zfar =
     (let f = 1 / tan (fovy / 2);
          nf = 1 / (znear - zfar)
      in [f / aspect, 0, 0, 0, 0, f, 0, 0, 0, 0, (zfar + znear) * nf, - 1, 0, 0, 2 * zfar * znear * nf, 0])"

definition ref_normalize :: "vec3 \<Rightarrow> vec3" where
  "ref_normalize v =
     (case v of
        (x, y, z) \<Rightarrow>
          (let len = sqrt (x * x + y * y + z * z)
           in if len = 0 then (0, 0, 0) else (x / len, y / len, z / len)))"

definition ref_cross :: "vec3 \<Rightarrow> vec3 \<Rightarrow> vec3" where
  "ref_cross a b =
     (case (a, b) of
        ((a0, a1, a2), (b0, b1, b2)) \<Rightarrow> (a1 * b2 - a2 * b1, a2 * b0 - a0 * b2, a0 * b1 - a1 * b0))"

definition ref_dot :: "vec3 \<Rightarrow> vec3 \<Rightarrow> real" where
  "ref_dot a b = (case (a, b) of ((a0, a1, a2), (b0, b1, b2)) \<Rightarrow> a0 * b0 + a1 * b1 + a2 * b2)"

definition ref_lookAt :: "vec3 \<Rightarrow> vec3 \<Rightarrow> vec3 \<Rightarrow> mat4" where
  "ref_lookAt eye center u =
     (case (eye, center) of
        ((e0, e1, e2), (c0, c1, c2)) \<Rightarrow>
          if \<bar>e0 - c0\<bar> < 1 / 1000000 \<and> \<bar>e1 - c1\<bar> < 1 / 1000000 \<and> \<bar>e2 - c2\<bar> < 1 / 1000000
          then [1, 0, 0, 0, 0, 1, 0, 0, 0, 0, 1, 0, 0, 0, 0, 1]
          else
            (let z = ref_normalize (e0 - c0, e1 - c1, e2 - c2);
                 x = ref_normalize (ref_cross u z);
                 y = ref_normalize (ref_cross z x)
             in case (x, y, z) of
                  ((x0, x1, x2), (y0, y1, y2), (z0, z1, z2)) \<Rightarrow>
                    [x0, y0, z0, 0, x1, y1, z1, 0, x2, y2, z2, 0,
                     - ref_dot x eye, - ref_dot y eye, - ref_dot z eye, 1]))"

text \<open>The other functions of gl-mat4 and gl-vec4 that the base class and \<^verbatim>\<open>transformVector\<close>
  call: the inverse of a matrix by its cofactors, and the product of a matrix and a
  homogeneous vector. Where the determinant is zero gl-mat4 returns \<^verbatim>\<open>null\<close>; the entries
  here are then all zero, and nothing below reads them.\<close>

definition ref_determinant :: "mat4 \<Rightarrow> real" where
  "ref_determinant a =
     (a ! 0 * a ! 5 - a ! 1 * a ! 4) * (a ! 10 * a ! 15 - a ! 11 * a ! 14)
     - (a ! 0 * a ! 6 - a ! 2 * a ! 4) * (a ! 9 * a ! 15 - a ! 11 * a ! 13)
     + (a ! 0 * a ! 7 - a ! 3 * a ! 4) * (a ! 9 * a ! 14 - a ! 10 * a ! 13)
     + (a ! 1 * a ! 6 - a ! 2 * a ! 5) * (a ! 8 * a ! 15 - a ! 11 * a ! 12)
     - (a ! 1 * a ! 7 - a ! 3 * a ! 5) * (a ! 8 * a ! 14 - a ! 10 * a ! 12)
     + (a ! 2 * a ! 7 - a ! 3 * a ! 6) * (a ! 8 * a ! 13 - a ! 9 * a ! 12)"

definition ref_invert :: "mat4 \<Rightarrow> mat4" where
  "ref_invert a =
     (let b00 = a ! 0 * a ! 5 - a ! 1 * a ! 4;
          b01 = a ! 0 * a ! 6 - a ! 2 * a ! 4;
          b02 = a ! 0 * a ! 7 - a ! 3 * a ! 4;
          b03 = a ! 1 * a ! 6 - a ! 2 * a ! 5;
          b04 = a ! 1 * a ! 7 - a ! 3 * a ! 5;
          b05 = a ! 2 * a ! 7 - a ! 3 * a ! 6;
          b06 = a ! 8 * a ! 13 - a ! 9 * a ! 12;
          b07 = a ! 8 * a ! 14 - a ! 10 * a ! 12;
          b08 = a ! 8 * a ! 15 - a ! 11 * a ! 12;
          b09 = a ! 9 * a ! 14 - a ! 10 * a ! 13;
          b10 = a ! 9 * a ! 15 - a ! 11 * a ! 13;
          b11 = a ! 10 * a ! 15 - a ! 11 * a ! 14;
          det = 1 / ref_determinant a
      in [(a ! 5 * b11 - a ! 6 * b10 + a ! 7 * b09) * det,
          (a ! 2 * b10 - a ! 1 * b11 - a ! 3 * b09) * det,
          (a ! 13 * b05 - a ! 14 * b04 + a ! 15 * b03) * det,
          (a ! 10 * b04 - a ! 9 * b05 - a ! 11 * b03) * det,
          (a ! 6 * b08 - a ! 4 * b11 - a ! 7 * b07) * det,
          (a ! 0 * b11 - a ! 2 * b08 + a ! 3 * b07) * det,
          (a ! 14 * b02 - a ! 12 * b05 - a ! 15 * b01) * det,
          (a ! 8 * b05 - a ! 10 * b02 + a ! 11 * b01) * det,
          (a ! 4 * b10 - a ! 5 * b08 + a ! 7 * b06) * det,
          (a ! 1 * b08 - a ! 0 * b10 - a ! 3 * b06) * det,
          (a ! 12 * b04 - a ! 13 * b02 + a ! 15 * b00) * det,
          (a ! 9 * b02 - a ! 8 * b04 - a ! 11 * b00) * det,
          (a ! 5 * b07 - a ! 4 * b09 - a ! 6 * b06) * det,
          (a ! 0 * b09 - a ! 1 * b07 + a ! 2 * b06) * det,
          (a ! 13 * b01 - a ! 12 * b03 - a ! 14 * b00) * det,
          (a ! 8 * b03 - a ! 9 * b01 + a ! 10 * b00) * det])"

definition vec4_transformMat4 :: "mat4 \<Rightarrow> vec4 \<Rightarrow> vec4" where
  "vec4_transformMat4 m v =
     (case v of
        (x, y, z, w) \<Rightarrow>
          (m ! 0 * x + m ! 4 * y + m ! 8 * z + m ! 12 * w,
           m ! 1 * x + m ! 5 * y + m ! 9 * z + m ! 13 * w,
           m ! 2 * x + m ! 6 * y + m ! 10 * z + m ! 14 * w,
           m ! 3 * x + m ! 7 * y + m ! 11 * z + m ! 15 * w))"

text \<open>Modelled from the spec: the constructor of the base class \<^verbatim>\<open>Viewport\<close>, which is not
  among the sources. It composes the pixel-projection matrix as the viewport-pixel
  scale and translate matrix times the projection matrix times the view matrix, and keeps
  the inverse of that matrix as the pixel-unprojection matrix.\<close>

definition ref_Viewport :: "mat4 \<Rightarrow> mat4 \<Rightarrow> real \<Rightarrow> real \<Rightarrow> viewport_base" where
  "ref_Viewport viewMatrix projectionMatrix w h =
     (let m = ref_multiply
                (ref_multiply [w / 2, 0, 0, 0, 0, - h / 2, 0, 0, 0, 0, 1, 0, w / 2, h / 2, 0, 1]
                   projectionMatrix)
                viewMatrix
      in \<lparr>pixelProjectionMatrix = m, pixelUnprojectionMatrix = ref_invert m\<rparr>)"

text \<open>Modelled from the spec: \<^verbatim>\<open>transformVector\<close>, which is not among the sources. It applies
  a matrix to a homogeneous vector and divides by the fourth coordinate.\<close>

definition ref_transformVector :: "mat4 \<Rightarrow> vec4 \<Rightarrow> vec4" where
  "ref_transformVector m v =
     (case vec4_transformMat4 m v of
        (x, y, z, w) \<Rightarrow>
          (let scale = 1 / w
           in (x * scale, y * scale, z * scale, w * scale)))"

definition reference_imports :: orbit_imports where
  "reference_imports =
     \<lparr>Viewport = ref_Viewport,
      mat4_multiply = ref_multiply,
      mat4_lookAt = ref_lookAt,
      mat4_scale = ref_scale,
      mat4_perspective = ref_perspective,
      mat4_translate = ref_translate,
      mat4_rotateX = ref_rotateX,
      mat4_rotateY = ref_rotateY,
      mat4_rotateZ = ref_rotateZ,
      transformVector = ref_transformVector\<rparr>"

definition sample_args :: OrbitViewport_args where
  "sample_args =
     \<lparr>arg_width = 800, arg_height = 600, arg_distance = 10,
      arg_rotationX = None, arg_rotationOrbit = None, arg_orbitAxis = None,
      arg_lookAt = Some (0, 0, 0), arg_up = None,
      arg_fov = Some 75, arg_near = Some 1, arg_far = Some 100, arg_zoom = None\<rparr>"

section \<open>The loop over the layers\<close>

text \<open>Drawing one layer applies its resolved parameters for the duration of the call. When
  the call returns, the GPU parameter state is put back and, of the world, only the record of
  calls has changed; when it raises, the state is the one the call leaves, unless the resolved
  parameters ask for it to be put back.\<close>

lemma drawLayerInViewport_eq:
  "drawLayerInViewport layer i D g pp w =
     ((case raised (layer_call layer i D g pp (gl_state w)) of None \<Rightarrow> Inr () | Some e \<Rightarrow> Inl (Raised e)),
      w\<lparr>gl_calls := gl_calls w @ [layer_call layer i D g pp (gl_state w)],
        gl_state := layer_leaves layer i D g pp (gl_state w)\<rparr>)"
  by (cases "drawLayer layer
        \<lparr>opt_moduleParameters = resolve_moduleParameters layer D,
           opt_uniforms = resolve_uniforms layer i D,
           opt_parameters = resolve_layerParameters layer i D g pp\<rparr>
        (gl_state w ++ resolve_layerParameters layer i D g pp)")
     (auto simp add: drawLayerInViewport_def withParameters_def setParameters_def layer_call_def
        layer_leaves_def Let_def split: option.splits)

lemma layer_leaves_returned:
  "raised (layer_call layer i D g pp s0) = None \<Longrightarrow> layer_leaves layer i D g pp s0 = s0"
  by (simp add: layer_call_def layer_leaves_def Let_def)

lemma layer_step_eq:
  "layer_step D F vp g pp layer i stats w =
     (if shouldDrawLayer D F vp layer then
        (case raised (layer_call layer i D g pp (gl_state w)) of
           None \<Rightarrow> Inr (count_layer True layer stats)
         | Some e \<Rightarrow> Inl (Raised e),
         w\<lparr>gl_calls := gl_calls w @ [layer_call layer i D g pp (gl_state w)],
           gl_state := layer_leaves layer i D g pp (gl_state w)\<rparr>)
      else (Inr (count_layer False layer stats), w))"
  by (simp add: layer_step_def drawLayerInViewport_eq count_layer_def Let_def split: option.splits)

lemma layer_call_simps [simp]:
  "raised (layer_call layer i D g pp s0) =
     fst (drawLayer layer
            \<lparr>opt_moduleParameters = resolve_moduleParameters layer D,
             opt_uniforms = resolve_uniforms layer i D,
             opt_parameters = resolve_layerParameters layer i D g pp\<rparr>
            (s0 ++ resolve_layerParameters layer i D g pp))"
  "drawn_positions (layer_call layer i D g pp s0 # cs) = i # drawn_positions cs"
  by (simp_all add: layer_call_def Let_def)

lemma eligible_calls_simps [simp]:
  "eligible_calls D F vp g pp s0 i [] = []"
  "eligible_calls D F vp g pp s0 i (l # ls) =
     (if shouldDrawLayer D F vp l then [layer_call l i D g pp s0] else [])
       @ eligible_calls D F vp g pp s0 (Suc i) ls"
  by (simp_all add: eligible_calls_def)

text \<open>The loop in full: it changes the record of calls and, when it fails, the GPU parameter
  state, and nothing else of the world; the calls it makes are a prefix of the calls of the
  eligible layers; when it completes they are all of them, none raised, the GPU parameter state
  is as before and the statistics are the initial ones counted up layer by layer; when it
  fails, the last call raised and what it raised is the failure.\<close>

lemma layers_forEach_calls:
  "layers_forEach D F vp g pp ls i st w = (r, w') \<Longrightarrow>
   \<exists>cs. w'\<lparr>gl_state := gl_state w\<rparr> = w\<lparr>gl_calls := gl_calls w @ cs\<rparr> \<and>
        prefix cs (eligible_calls D F vp g pp (gl_state w) i ls) \<and>
        (\<forall>st'. r = Inr st' \<longrightarrow>
             gl_state w' = gl_state w \<and>
             cs = eligible_calls D F vp g pp (gl_state w) i ls \<and>
             (\<forall>c\<in>set cs. raised c = None) \<and>
             st' = foldl (\<lambda>s l. count_layer (shouldDrawLayer D F vp l) l s) st ls) \<and>
        (\<forall>x. r = Inl x \<longrightarrow>
             (\<exists>cs' c e. cs = cs' @ [c] \<and> (\<forall>c'\<in>set cs'. raised c' = None) \<and>
                        raised c = Some e \<and> x = Raised e))"
proof (induction ls arbitrary: i st w)
  case Nil
  then show ?case by (intro exI[of _ "[]"]) auto
next
  case (Cons l ls)
  show ?case
  proof (cases "shouldDrawLayer D F vp l")
    case False
    with Cons.prems have "layers_forEach D F vp g pp ls (Suc i) (count_layer False l st) w = (r, w')"
      by (simp add: layer_step_eq)
    from Cons.IH[OF this] False show ?thesis by simp
  next
    case True
    let ?c = "layer_call l i D g pp (gl_state w)"
    let ?w1 = "w\<lparr>gl_calls := gl_calls w @ [?c]\<rparr>"
    show ?thesis
    proof (cases "raised ?c")
      case None
      then have "layer_leaves l i D g pp (gl_state w) = gl_state w"
        by (rule layer_leaves_returned)
      with Cons.prems True None
      have "layers_forEach D F vp g pp ls (Suc i) (count_layer True l st) ?w1 = (r, w')"
        by (simp add: layer_step_eq del: layer_call_simps(1))
      from Cons.IH[OF this] obtain cs where
        cs: "w'\<lparr>gl_state := gl_state ?w1\<rparr> = ?w1\<lparr>gl_calls := gl_calls ?w1 @ cs\<rparr>"
          "prefix cs (eligible_calls D F vp g pp (gl_state w) (Suc i) ls)"
          "\<forall>st'. r = Inr st' \<longrightarrow>
               gl_state w' = gl_state w \<and>
               cs = eligible_calls D F vp g pp (gl_state w) (Suc i) ls \<and>
               (\<forall>c\<in>set cs. raised c = None) \<and>
               st' = foldl (\<lambda>s l. count_layer (shouldDrawLayer D F vp l) l s) (count_layer True l st) ls"
          "\<forall>x. r = Inl x \<longrightarrow>
               (\<exists>cs' c e. cs = cs' @ [c] \<and> (\<forall>c'\<in>set cs'. raised c' = None) \<and>
                          raised c = Some e \<and> x = Raised e)"
        by auto
      have 1: "w'\<lparr>gl_state := gl_state w\<rparr> = w\<lparr>gl_calls := gl_calls w @ ?c # cs\<rparr>"
        using cs(1) by simp
      have 2: "prefix (?c # cs) (eligible_calls D F vp g pp (gl_state w) i (l # ls))"
        using cs(2) True by simp
      have 3: "\<forall>st'. r = Inr st' \<longrightarrow>
               gl_state w' = gl_state w \<and>
               ?c # cs = eligible_calls D F vp g pp (gl_state w) i (l # ls) \<and>
               (\<forall>c\<in>set (?c # cs). raised c = None) \<and>
               st' = foldl (\<lambda>s l. count_layer (shouldDrawLayer D F vp l) l s) st (l # ls)"
        using cs(3) True None by (simp del: layer_call_simps(1))
      have 4: "\<forall>x. r = Inl x \<longrightarrow>
               (\<exists>cs' c e. ?c # cs = cs' @ [c] \<and> (\<forall>c'\<in>set cs'. raised c' = None) \<and>
                          raised c = Some e \<and> x = Raised e)"
      proof (intro allI impI)
        fix x assume "r = Inl x"
        with cs(4) obtain cs' c e where
          "cs = cs' @ [c]" "\<forall>c'\<in>set cs'. raised c' = None" "raised c = Some e" "x = Raised e"
          by auto
        with None show "\<exists>cs' c e. ?c # cs = cs' @ [c] \<and> (\<forall>c'\<in>set cs'. raised c' = None) \<and>
                          raised c = Some e \<and> x = Raised e"
          by (intro exI[of _ "?c # cs'"] exI[of _ c] exI[of _ e]) (simp del: layer_call_simps(1))
      qed
      from 1 2 3 4 show ?thesis by blast
    next
      case (Some e)
      with Cons.prems True have "r = Inl (Raised e)"
        "w' = w\<lparr>gl_calls := gl_calls w @ [?c], gl_state := layer_leaves l i D g pp (gl_state w)\<rparr>"
        by (simp_all add: layer_step_eq del: layer_call_simps(1))
      then show ?thesis
        using True Some by (intro exI[of _ "[?c]"]) (simp del: layer_call_simps(1))
    qed
  qed
qed

lemma drawn_positions_append:
  "drawn_positions (xs @ ys) = drawn_positions xs @ drawn_positions ys"
  by (induction xs rule: drawn_positions.induct) simp_all

lemma prefix_drawn_positions:
  "prefix cs ds \<Longrightarrow> prefix (drawn_positions cs) (drawn_positions ds)"
  by (auto simp: prefix_def drawn_positions_append)

lemma drawn_positions_eligible_calls:
  "drawn_positions (eligible_calls D F vp g pp s0 i ls) =
     filter (\<lambda>j. shouldDrawLayer D F vp (ls ! (j - i))) [i..<i + length ls]"
proof (induction ls arbitrary: i)
  case Nil
  show ?case by simp
next
  case (Cons l ls)
  have "(l # ls) ! (j - i) = ls ! (j - Suc i)" if "j \<in> set [Suc i..<Suc i + length ls]" for j
    using that by (auto simp: nth_Cons')
  then have "filter (\<lambda>j. shouldDrawLayer D F vp ((l # ls) ! (j - i))) [Suc i..<Suc i + length ls] =
        filter (\<lambda>j. shouldDrawLayer D F vp (ls ! (j - Suc i))) [Suc i..<Suc i + length ls]"
    by (intro filter_cong refl) simp
  moreover have "[i..<i + length (l # ls)] = i # [Suc i..<Suc i + length ls]"
    by (simp add: upt_conv_Cons del: upt_Suc)
  ultimately show ?case
    using Cons.IH[of "Suc i"]
    by (simp add: drawn_positions_append del: layer_call_simps(1) upt_Suc)
qed

lemma in_eligible_calls:
  assumes "c \<in> set (eligible_calls D F vp g pp s0 0 ls)"
  shows "\<exists>i<length ls. shouldDrawLayer D F vp (ls ! i) \<and> c = layer_call (ls ! i) i D g pp s0"
proof -
  from assms obtain j l where "(j, l) \<in> set (enumerate 0 ls)" "shouldDrawLayer D F vp l"
    "c = layer_call l j D g pp s0"
    by (auto simp: eligible_calls_def)
  then show ?thesis
    by (auto simp: in_set_enumerate_eq)
qed

lemma shouldDrawLayer_iff:
  "shouldDrawLayer D F vp l \<longleftrightarrow>
     visible (props l) \<and> (\<not> D \<or> pickable (props l)) \<and>
     (case F of None \<Rightarrow> True | Some f \<Rightarrow> f l vp D)"
  by (auto simp: shouldDrawLayer_def Let_def split: option.splits)

lemma foldl_count_layer:
  "foldl (\<lambda>s l. count_layer (P l) l s) st ls =
     st\<lparr>pickableCount := pickableCount st + length (filter (\<lambda>l. P l \<and> pickable (props l)) ls),
        compositeCount := compositeCount st + length (filter isComposite ls),
        visibleCount := visibleCount st + length (filter (\<lambda>l. P l \<and> \<not> isComposite l) ls)\<rparr>"
  by (induction ls arbitrary: st) (simp_all add: count_layer_def)

section \<open>One viewport, all viewports\<close>

lemma logRenderStats_frame [simp]:
  "gl_calls (logRenderStats st pass reason w) = gl_calls w"
  "gl_state (logRenderStats st pass reason w) = gl_state w"
  by (simp_all add: logRenderStats_def Let_def)

lemma calls_since_append: "gl_calls w' = gl_calls w @ cs \<Longrightarrow> calls_since w w' = cs"
  by (simp add: calls_since_def)

lemma drawLayersInViewport_calls:
  assumes "drawLayersInViewport layers vp u D pp F pass reason w = (r, w')"
  shows "\<exists>cs g. gl_calls w' = gl_calls w @ cs \<and>
           prefix cs (eligible_calls D F vp g pp
                        (gl_state w ++ (case pp of None \<Rightarrow> Map.empty | Some p \<Rightarrow> p)) 0 layers) \<and>
           (r = Inr () \<longrightarrow>
              cs = eligible_calls D F vp g pp
                     (gl_state w ++ (case pp of None \<Rightarrow> Map.empty | Some p \<Rightarrow> p)) 0 layers \<and>
              (\<forall>c\<in>set cs. raised c = None)) \<and>
           (u = None \<longrightarrow> cs = [] \<and> w' = w \<and> r = Inl (AssertionError ''Invalid useDevicePixelRatio'')) \<and>
           (u \<noteq> None \<longrightarrow>
              (r = Inr () \<longrightarrow>
                 gl_state w' = gl_state w ++ (case pp of None \<Rightarrow> Map.empty | Some p \<Rightarrow> p)) \<and>
              (\<forall>x. r = Inl x \<longrightarrow>
                 (\<exists>cs' c e. cs = cs' @ [c] \<and> (\<forall>c'\<in>set cs'. raised c' = None) \<and>
                            raised c = Some e \<and> x = Raised e)))"
proof (cases "getPixelRatio u w :: 'a error + real")
  case (Inl e)
  then have "u = None" "e = AssertionError ''Invalid useDevicePixelRatio''"
    by (auto simp: getPixelRatio_def split: option.splits)
  with assms Inl show ?thesis
    by (intro exI[of _ "[]"]) (auto simp: drawLayersInViewport_def)
next
  case (Inr pixelRatio)
  then have u: "u \<noteq> None"
    by (auto simp: getPixelRatio_def split: option.splits)
  let ?pp = "case pp of None \<Rightarrow> Map.empty | Some p \<Rightarrow> p"
  let ?w1 = "setParameters ?pp w"
  let ?g = "getGLViewport w vp pixelRatio"
  obtain r2 w2 where loop:
    "layers_forEach D F vp ?g pp layers 0 (initial_renderStats layers) ?w1 = (r2, w2)"
    by (cases "layers_forEach D F vp ?g pp layers 0 (initial_renderStats layers) ?w1") auto
  from layers_forEach_calls[OF loop] obtain cs where
    frame: "w2\<lparr>gl_state := gl_state ?w1\<rparr> = ?w1\<lparr>gl_calls := gl_calls ?w1 @ cs\<rparr>" and
    cs: "prefix cs (eligible_calls D F vp ?g pp (gl_state ?w1) 0 layers)"
      "\<forall>st'. r2 = Inr st' \<longrightarrow>
           gl_state w2 = gl_state ?w1 \<and>
           cs = eligible_calls D F vp ?g pp (gl_state ?w1) 0 layers \<and>
           (\<forall>c\<in>set cs. raised c = None) \<and>
           st' = foldl (\<lambda>s l. count_layer (shouldDrawLayer D F vp l) l s) (initial_renderStats layers) layers"
      "\<forall>x. r2 = Inl x \<longrightarrow>
           (\<exists>cs' c e. cs = cs' @ [c] \<and> (\<forall>c'\<in>set cs'. raised c' = None) \<and>
                      raised c = Some e \<and> x = Raised e)"
    by blast
  have s1: "gl_state ?w1 = gl_state w ++ ?pp" "gl_calls ?w1 = gl_calls w"
    by (simp_all add: setParameters_def)
  from arg_cong[OF frame, of gl_calls] have calls: "gl_calls w2 = gl_calls w @ cs"
    by (simp add: s1)
  show ?thesis
  proof (cases r2)
    case (Inl x)
    with assms Inr loop have "r = Inl x" "w' = w2"
      by (simp_all add: drawLayersInViewport_def Let_def)
    with cs calls Inl u s1 show ?thesis
      by (intro exI[of _ cs] exI[of _ ?g]) auto
  next
    case (Inr st')
    with assms \<open>getPixelRatio u w = Inr pixelRatio\<close> loop
    have "r = Inr ()" "w' = logRenderStats st' pass reason (w2\<lparr>renderCount := renderCount w2 + 1\<rparr>)"
      by (simp_all add: drawLayersInViewport_def Let_def)
    with cs calls Inr u s1 show ?thesis
      by (intro exI[of _ cs] exI[of _ ?g]) auto
  qed
qed

lemma drawLayersInViewport_prefix:
  assumes "drawLayersInViewport layers vp u D pp F pass reason w = (r, w')"
  shows "\<exists>cs g s0. gl_calls w' = gl_calls w @ cs \<and>
           prefix cs (eligible_calls D F vp g pp s0 0 layers) \<and>
           (r = Inr () \<longrightarrow> cs = eligible_calls D F vp g pp s0 0 layers)"
  using drawLayersInViewport_calls[OF assms] by (elim exE conjE) (intro exI conjI, assumption+, simp)

lemma layers_forEach_stats:
  assumes "layers_forEach D F vp g pp ls i st w = (Inr st', w')"
  shows "st' = foldl (\<lambda>s l. count_layer (shouldDrawLayer D F vp l) l s) st ls"
    and "log_lines w' = log_lines w" and "renderCount w' = renderCount w"
    and "log_priority w' = log_priority w"
proof -
  from layers_forEach_calls[OF assms] obtain cs where
    frame: "w'\<lparr>gl_state := gl_state w\<rparr> = w\<lparr>gl_calls := gl_calls w @ cs\<rparr>" and
    st: "\<forall>st''. (Inr st' :: 'a error + renderStats) = Inr st'' \<longrightarrow>
           gl_state w' = gl_state w \<and>
           cs = eligible_calls D F vp g pp (gl_state w) i ls \<and>
           (\<forall>c\<in>set cs. raised c = None) \<and>
           st'' = foldl (\<lambda>s l. count_layer (shouldDrawLayer D F vp l) l s) st ls"
    by (elim exE conjE)
  from st show "st' = foldl (\<lambda>s l. count_layer (shouldDrawLayer D F vp l) l s) st ls"
    by simp
  from arg_cong[OF frame, of log_lines] show "log_lines w' = log_lines w" by simp
  from arg_cong[OF frame, of renderCount] show "renderCount w' = renderCount w" by simp
  from arg_cong[OF frame, of log_priority] show "log_priority w' = log_priority w" by simp
qed

lemma clearCanvas_frame:
  "gl_calls (clearCanvas w) =
     gl_calls w @ [Clear (gl_state w ++ [''viewport'' \<mapsto> PVec [0, 0, drawingBufferWidth w, drawingBufferHeight w]])]"
  "gl_state (clearCanvas w) = gl_state w"
  by (simp_all add: clearCanvas_def withParameters_def setParameters_def Let_def)

lemma map_add_twice: "(m ++ p) ++ p = m ++ p"
  by (rule ext) (simp add: map_add_def split: option.splits)

lemma viewports_forEach_not_boolean:
  "viewports_forEach onVA None D pp F pass reason vs layers w =
     (if vs = [] then (Inr (), w) else (Inl (AssertionError ''Invalid useDevicePixelRatio''), w))"
  by (cases vs) (simp_all add: drawLayersInViewport_def getPixelRatio_def)

lemma viewports_forEach_calls:
  "viewports_forEach onVA (Some b) D pp F pass reason vs layers w = (r, w') \<Longrightarrow>
   \<exists>cs. gl_calls w' = gl_calls w @ cs \<and>
        (r = Inr () \<longrightarrow> (\<forall>c\<in>set cs. raised c = None)) \<and>
        (\<forall>x. r = Inl x \<longrightarrow>
           (\<exists>cs' c e. cs = cs' @ [c] \<and> (\<forall>c'\<in>set cs'. raised c' = None) \<and>
                      raised c = Some e \<and> x = Raised e)) \<and>
        (r = Inr () \<longrightarrow>
           gl_state w' =
             (if vs = [] then gl_state w
              else gl_state w ++ (case pp of None \<Rightarrow> Map.empty | Some p \<Rightarrow> p)))"
proof (induction vs arbitrary: layers w)
  case Nil
  then show ?case by (intro exI[of _ "[]"]) auto
next
  case (Cons v vs)
  let ?pp = "case pp of None \<Rightarrow> Map.empty | Some p \<Rightarrow> p"
  let ?vp = "getViewportFromDescriptor v"
  let ?ls = "onVA ?vp layers"
  obtain r1 w1 where first: "drawLayersInViewport ?ls ?vp (Some b) D pp F pass reason w = (r1, w1)"
    by (cases "drawLayersInViewport ?ls ?vp (Some b) D pp F pass reason w") auto
  from drawLayersInViewport_calls[OF first] obtain cs1 where
    cs1: "gl_calls w1 = gl_calls w @ cs1"
      "r1 = Inr () \<longrightarrow> (\<forall>c\<in>set cs1. raised c = None)"
      "\<forall>x. r1 = Inl x \<longrightarrow>
           (\<exists>cs' c e. cs1 = cs' @ [c] \<and> (\<forall>c'\<in>set cs'. raised c' = None) \<and>
                      raised c = Some e \<and> x = Raised e)"
      "r1 = Inr () \<longrightarrow> gl_state w1 = gl_state w ++ ?pp"
    by auto
  show ?case
  proof (cases r1)
    case (Inl x)
    with Cons.prems first have "r = Inl x" "w' = w1"
      by (simp_all add: Let_def)
    with cs1 Inl show ?thesis
      by (intro exI[of _ cs1]) auto
  next
    case (Inr u1)
    with Cons.prems first
    have rest: "viewports_forEach onVA (Some b) D pp F pass reason vs ?ls w1 = (r, w')"
      by (simp add: Let_def)
    from Cons.IH[OF rest] obtain cs2 where
      cs2: "gl_calls w' = gl_calls w1 @ cs2"
        "r = Inr () \<longrightarrow> (\<forall>c\<in>set cs2. raised c = None)"
        "\<forall>x. r = Inl x \<longrightarrow>
           (\<exists>cs' c e. cs2 = cs' @ [c] \<and> (\<forall>c'\<in>set cs'. raised c' = None) \<and>
                      raised c = Some e \<and> x = Raised e)"
        "r = Inr () \<longrightarrow> gl_state w' = (if vs = [] then gl_state w1 else gl_state w1 ++ ?pp)"
      by blast
    have none1: "\<forall>c\<in>set cs1. raised c = None"
      using cs1(2) Inr by simp
    have 1: "gl_calls w' = gl_calls w @ (cs1 @ cs2)"
      using cs1(1) cs2(1) by simp
    have 2: "r = Inr () \<longrightarrow> (\<forall>c\<in>set (cs1 @ cs2). raised c = None)"
      using none1 cs2(2) by auto
    have 3: "\<forall>x. r = Inl x \<longrightarrow>
           (\<exists>cs' c e. cs1 @ cs2 = cs' @ [c] \<and> (\<forall>c'\<in>set cs'. raised c' = None) \<and>
                      raised c = Some e \<and> x = Raised e)"
    proof (intro allI impI)
      fix x assume "r = Inl x"
      with cs2(3) obtain cs' c e where
        "cs2 = cs' @ [c]" "\<forall>c'\<in>set cs'. raised c' = None" "raised c = Some e" "x = Raised e"
        by auto
      with none1 have "cs1 @ cs2 = (cs1 @ cs') @ [c] \<and> (\<forall>c'\<in>set (cs1 @ cs'). raised c' = None) \<and>
                      raised c = Some e \<and> x = Raised e"
        by auto
      then show "\<exists>cs' c e. cs1 @ cs2 = cs' @ [c] \<and> (\<forall>c'\<in>set cs'. raised c' = None) \<and>
                      raised c = Some e \<and> x = Raised e"
        by blast
    qed
    have 4: "r = Inr () \<longrightarrow> gl_state w' = gl_state w ++ ?pp"
      using cs2(4) cs1(4) Inr by (simp add: map_add_twice)
    from 1 2 3 4 show ?thesis
      by (intro exI[of _ "cs1 @ cs2"]) simp
  qed
qed

section \<open>Evaluation\<close>

text \<open>The definitions to unfold when the orchestrator or the camera is run on sample values.\<close>

lemmas run_defs =
  drawLayers_def clearCanvas_def getViewportFromDescriptor_def
  drawLayersInViewport_def getPixelRatio_def getGLViewport_def setParameters_def withParameters_def
  nocatch_def
  initial_renderStats_def layer_step_def shouldDrawLayer_def drawLayerInViewport_def
  resolve_moduleParameters_def resolve_uniforms_def resolve_layerParameters_def
  getPickingModuleParameters_def logRenderStats_def LOG_PRIORITY_DRAW_def calls_since_def
  sample_world_def sample_viewport_def sample_layer_def Let_def

lemmas camera_defs =
  OrbitViewport_new_def OrbitViewport_super_def sample_args_def default_to_def Let_def
  reference_imports_def ref_multiply_def ref_lookAt_def ref_normalize_def ref_cross_def ref_dot_def
  ref_rotateX_def ref_rotateY_def ref_rotateZ_def ref_scale_def ref_translate_def createMat4_def
  DEGREES_TO_RADIANS_def

lemma upt_16: "[0..<16] = [0, 1, 2, 3, 4, 5, 6, 7, 8, 9, 10, 11, 12, 13, 14, 15]"
  by (simp add: upt_conv_Cons)

lemma upt_4: "[0..<4] = [0, 1, 2, 3]"
  by (simp add: upt_conv_Cons)

lemma ref_Viewport_pixelProjectionMatrix:
  "pixelProjectionMatrix (ref_Viewport viewMatrix projectionMatrix w h) =
     ref_multiply
       (ref_multiply [w / 2, 0, 0, 0, 0, - h / 2, 0, 0, 0, 0, 1, 0, w / 2, h / 2, 0, 1] projectionMatrix)
       viewMatrix"
  by (simp add: ref_Viewport_def Let_def)

lemma OrbitViewport_new_fields [simp]:
  "width (OrbitViewport_new I a) = arg_width a"
  "height (OrbitViewport_new I a) = arg_height a"
  "distance (OrbitViewport_new I a) = arg_distance a"
  "rotationX (OrbitViewport_new I a) = default_to 0 (arg_rotationX a)"
  "rotationOrbit (OrbitViewport_new I a) = default_to 0 (arg_rotationOrbit a)"
  "orbitAxis (OrbitViewport_new I a) = default_to ''Z'' (arg_orbitAxis a)"
  "lookAt (OrbitViewport_new I a) = default_to (0, 0, 0) (arg_lookAt a)"
  "up (OrbitViewport_new I a) = default_to (0, 1, 0) (arg_up a)"
  "fov (OrbitViewport_new I a) = default_to 75 (arg_fov a)"
  "near (OrbitViewport_new I a) = default_to 1 (arg_near a)"
  "far (OrbitViewport_new I a) = default_to 100 (arg_far a)"
  "zoom (OrbitViewport_new I a) = default_to 1 (arg_zoom a)"
  by (simp_all add: OrbitViewport_new_def Let_def)

section \<open>Projecting and unprojecting\<close>

text \<open>The product of a matrix and a vector commutes with scaling the vector.\<close>

lemma vec4_transformMat4_scale:
  "vec4_transformMat4 m (k * a, k * b, k * c, k * d) =
     (case vec4_transformMat4 m (a, b, c, d) of (x, y, z, w) \<Rightarrow> (k * x, k * y, k * z, k * w))"
  by (simp add: vec4_transformMat4_def algebra_simps)

text \<open>Projecting and unprojecting, for every record of imports whose \<^verbatim>\<open>transformVector\<close>
  is the one of the repository and every viewport whose unprojection matrix inverts its
  projection matrix: the projection divides by the fourth coordinate \<open>d\<close> of the product, the
  unprojection multiplies the quotient back and finds the point at scale \<open>1 / d\<close>, and its
  own division removes the scale.\<close>

lemma round_trip:
  assumes tv: "transformVector I = ref_transformVector"
    and inv: "\<forall>v. vec4_transformMat4 (pixelUnprojectionMatrix (base this))
                   (vec4_transformMat4 (pixelProjectionMatrix (base this)) v) = v"
    and w: "snd (snd (snd (vec4_transformMat4 (pixelProjectionMatrix (base this)) (x, y, z, 1)))) \<noteq> 0"
  shows "unproject I this (project I this (x, y, z) t) t = (x, y, z, 1)"
proof -
  let ?M = "pixelProjectionMatrix (base this)"
  let ?U = "pixelUnprojectionMatrix (base this)"
  obtain a b c d where v: "vec4_transformMat4 ?M (x, y, z, 1) = (a, b, c, d)"
    by (cases "vec4_transformMat4 ?M (x, y, z, 1)") auto
  with w have d: "d \<noteq> 0"
    by simp
  have "vec4_transformMat4 ?U (vec4_transformMat4 ?M (x, y, z, 1)) = (x, y, z, 1)"
    using inv by simp
  then have inverted: "vec4_transformMat4 ?U (a, b, c, d) = (x, y, z, 1)"
    by (simp add: v)
  have "vec4_transformMat4 ?U (1 / d * a, 1 / d * b, 1 / d * c, 1 / d * d) =
          (1 / d * x, 1 / d * y, 1 / d * z, 1 / d * 1)"
    by (simp only: vec4_transformMat4_scale inverted prod.case)
  with d have scaled: "vec4_transformMat4 ?U (a / d, b / d, c / d, 1) = (x / d, y / d, z / d, 1 / d)"
    by simp
  have "ref_transformVector ?U (a / d, b / d, c / d, 1) = (x, y, z, 1)"
    using d by (simp add: ref_transformVector_def scaled Let_def)
  then show ?thesis
    using d by (cases t) (simp_all add: unproject_def project_def tv v default_to_def Let_def
        ref_transformVector_def[of ?M])
qed

text \<open>The cofactor inverse inverts: for each coordinate, the cofactors times the product of the
  matrix and a vector give the determinant times the coordinate of the vector.\<close>

lemma ref_invert_inverts:
  assumes "ref_determinant m \<noteq> 0"
  shows "vec4_transformMat4 (ref_invert m) (vec4_transformMat4 m v) = v"
proof -
  obtain x y z w where v: "v = (x, y, z, w)"
    by (cases v) auto
  define d where "d = ref_determinant m"
  have d: "d \<noteq> 0" using assms by (simp add: d_def)
  let ?X0 = "m ! 0 * x + m ! 4 * y + m ! 8 * z + m ! 12 * w"
  let ?X1 = "m ! 1 * x + m ! 5 * y + m ! 9 * z + m ! 13 * w"
  let ?X2 = "m ! 2 * x + m ! 6 * y + m ! 10 * z + m ! 14 * w"
  let ?X3 = "m ! 3 * x + m ! 7 * y + m ! 11 * z + m ! 15 * w"
  let ?n = "\<lambda>i. ref_invert m ! i * d"
  have 0: "?n 0 * ?X0 + ?n 4 * ?X1 + ?n 8 * ?X2 + ?n 12 * ?X3 = d * x"
    using d unfolding ref_invert_def Let_def d_def[symmetric]
    apply simp
    apply (simp add: d_def ref_determinant_def algebra_simps)
    done
  have 1: "?n 1 * ?X0 + ?n 5 * ?X1 + ?n 9 * ?X2 + ?n 13 * ?X3 = d * y"
    using d unfolding ref_invert_def Let_def d_def[symmetric]
    apply simp
    apply (simp add: d_def ref_determinant_def algebra_simps)
    done
  have 2: "?n 2 * ?X0 + ?n 6 * ?X1 + ?n 10 * ?X2 + ?n 14 * ?X3 = d * z"
    using d unfolding ref_invert_def Let_def d_def[symmetric]
    apply simp
    apply (simp add: d_def ref_determinant_def algebra_simps)
    done
  have 3: "?n 3 * ?X0 + ?n 7 * ?X1 + ?n 11 * ?X2 + ?n 15 * ?X3 = d * w"
    using d unfolding ref_invert_def Let_def d_def[symmetric]
    apply simp
    apply (simp add: d_def ref_determinant_def algebra_simps)
    done
  have cancel: "p = q" if "p * d = d * q" for p q :: real
    using that d by simp
  have "fst (vec4_transformMat4 (ref_invert m) (vec4_transformMat4 m v)) = x"
    by (rule cancel) (simp add: v vec4_transformMat4_def 0[symmetric] algebra_simps)
  moreover have "fst (snd (vec4_transformMat4 (ref_invert m) (vec4_transformMat4 m v))) = y"
    by (rule cancel) (simp add: v vec4_transformMat4_def 1[symmetric] algebra_simps)
  moreover have "fst (snd (snd (vec4_transformMat4 (ref_invert m) (vec4_transformMat4 m v)))) = z"
    by (rule cancel) (simp add: v vec4_transformMat4_def 2[symmetric] algebra_simps)
  moreover have "snd (snd (snd (vec4_transformMat4 (ref_invert m) (vec4_transformMat4 m v)))) = w"
    by (rule cancel) (simp add: v vec4_transformMat4_def 3[symmetric] algebra_simps)
  ultimately show ?thesis
    by (simp add: v prod_eq_iff)
qed


text \<open>The sample camera: its matrices, its determinant, and the fourth coordinate of a projection.\<close>

lemma ref_Viewport_pixelUnprojectionMatrix:
  "pixelUnprojectionMatrix (ref_Viewport viewMatrix projectionMatrix w h) =
     ref_invert (pixelProjectionMatrix (ref_Viewport viewMatrix projectionMatrix w h))"
  by (simp add: ref_Viewport_def Let_def)

lemma reference_base:
  "base (OrbitViewport_new reference_imports a) =
     ref_Viewport (super_viewMatrix (OrbitViewport_super reference_imports a))
       (super_projectionMatrix (OrbitViewport_super reference_imports a))
       (super_width (OrbitViewport_super reference_imports a))
       (super_height (OrbitViewport_super reference_imports a))"
  by (simp add: OrbitViewport_new_def Let_def) (simp add: reference_imports_def)

lemma reference_unprojection:
  "pixelUnprojectionMatrix (base (OrbitViewport_new reference_imports a)) =
     ref_invert (pixelProjectionMatrix (base (OrbitViewport_new reference_imports a)))"
  by (simp only: reference_base ref_Viewport_pixelUnprojectionMatrix)

lemma tan_half_fov: "0 < tan (5 * pi / 24)"
  by (rule tan_gt_zero) simp_all

lemma sample_pixelProjectionMatrix:
  "pixelProjectionMatrix (base (OrbitViewport_new reference_imports sample_args)) =
     [300 / tan (5 * pi / 24), 0, 0, 0, 0, - (300 / tan (5 * pi / 24)), 0, 0,
      - 400, - 300, - (101 / 99), - 1, 4000, 3000, 90 / 11, 10]"
  by (simp add: camera_defs ref_Viewport_pixelProjectionMatrix ref_perspective_def upt_16 upt_4)

lemma sample_determinant:
  "ref_determinant (pixelProjectionMatrix (base (OrbitViewport_new reference_imports sample_args))) \<noteq> 0"
  using tan_half_fov by (simp add: sample_pixelProjectionMatrix ref_determinant_def)

lemma sample_depth:
  "snd (snd (snd (vec4_transformMat4
     (pixelProjectionMatrix (base (OrbitViewport_new reference_imports sample_args))) (x, y, z, 1)))) =
   10 - z"
  by (simp add: sample_pixelProjectionMatrix vec4_transformMat4_def)

lemma sample_inverse:
  "vec4_transformMat4 (pixelUnprojectionMatrix (base (OrbitViewport_new reference_imports sample_args)))
     (vec4_transformMat4 (pixelProjectionMatrix (base (OrbitViewport_new reference_imports sample_args))) v) = v"
  by (simp only: reference_unprojection ref_invert_inverts[OF sample_determinant])

lemma within_five:
  assumes "sqrt (x\<^sup>2 + y\<^sup>2 + z\<^sup>2) < 5"
  shows "z < 5"
proof -
  have "z \<le> \<bar>z\<bar>" by simp
  also have "\<bar>z\<bar> = sqrt (z\<^sup>2)" by simp
  also have "\<dots> \<le> sqrt (x\<^sup>2 + y\<^sup>2 + z\<^sup>2)" by (rule real_sqrt_le_mono) simp
  finally show ?thesis using assms by simp
qed

section \<open>The claims about the draw orchestrator\<close>

text \<open>Claim C1, amended. In \<^verbatim>\<open>drawLayersInViewport\<close>, for every list of layers, the layers
  whose draw operation is invoked are, in list order, a prefix of the layers whose visible flag
  is true, and (the pass is not a picking pass or their pickable flag is true), and (no
  \<^verbatim>\<open>layerFilter\<close> is supplied or \<^verbatim>\<open>layerFilter\<close> applied to the layer, the viewport and the
  picking flag returns true); when the pass runs to completion, they are exactly those layers,
  each drawn once.\<close>

theorem drawLayersInViewport_draws_eligible:
  assumes "drawLayersInViewport layers vp u D pp F pass reason w = (r, w')"
  shows "prefix (drawn_positions (calls_since w w'))
           (filter (\<lambda>i. visible (props (layers ! i)) \<and> (\<not> D \<or> pickable (props (layers ! i))) \<and>
                        (case F of None \<Rightarrow> True | Some f \<Rightarrow> f (layers ! i) vp D))
              [0..<length layers]) \<and>
         (r = Inr () \<longrightarrow>
            drawn_positions (calls_since w w') =
              filter (\<lambda>i. visible (props (layers ! i)) \<and> (\<not> D \<or> pickable (props (layers ! i))) \<and>
                           (case F of None \<Rightarrow> True | Some f \<Rightarrow> f (layers ! i) vp D))
                [0..<length layers])"
proof -
  from drawLayersInViewport_prefix[OF assms] obtain cs g s0 where
    cs: "gl_calls w' = gl_calls w @ cs"
      "prefix cs (eligible_calls D F vp g pp s0 0 layers)"
      "r = Inr () \<longrightarrow> cs = eligible_calls D F vp g pp s0 0 layers"
    by blast
  have "calls_since w w' = cs"
    using cs(1) by (rule calls_since_append)
  moreover have "drawn_positions (eligible_calls D F vp g pp s0 0 layers) =
      filter (\<lambda>i. visible (props (layers ! i)) \<and> (\<not> D \<or> pickable (props (layers ! i))) \<and>
                   (case F of None \<Rightarrow> True | Some f \<Rightarrow> f (layers ! i) vp D))
        [0..<length layers]"
    by (simp add: drawn_positions_eligible_calls shouldDrawLayer_iff)
  ultimately show ?thesis
    using prefix_drawn_positions[OF cs(2)] cs(3) by auto
qed

text \<open>The example of claim C1: of three layers (not visible; visible and not pickable; visible
  and pickable) a picking pass draws exactly the third, a normal pass exactly the second and
  the third; both passes complete.\<close>

theorem three_layers_witness:
  "fst (drawLayersInViewport
          [sample_layer False True None None, sample_layer True False None None,
           sample_layer True True None None]
          sample_viewport (Some True) True None None ''picking'' ''test'' sample_world) = Inr () \<and>
   drawn_positions (calls_since sample_world (snd (drawLayersInViewport
          [sample_layer False True None None, sample_layer True False None None,
           sample_layer True True None None]
          sample_viewport (Some True) True None None ''picking'' ''test'' sample_world))) = [2] \<and>
   fst (drawLayersInViewport
          [sample_layer False True None None, sample_layer True False None None,
           sample_layer True True None None]
          sample_viewport (Some True) False None None ''draw'' ''test'' sample_world) = Inr () \<and>
   drawn_positions (calls_since sample_world (snd (drawLayersInViewport
          [sample_layer False True None None, sample_layer True False None None,
           sample_layer True True None None]
          sample_viewport (Some True) False None None ''draw'' ''test'' sample_world))) = [1, 2]"
proof -
  let ?ls = "[sample_layer False True None None, sample_layer True False None None,
              sample_layer True True None None]"
  let ?pick = "drawLayersInViewport ?ls sample_viewport (Some True) True None None
                 ''picking'' ''test'' sample_world"
  let ?draw = "drawLayersInViewport ?ls sample_viewport (Some True) False None None
                 ''draw'' ''test'' sample_world"
  have p: "fst ?pick = Inr ()" and d: "fst ?draw = Inr ()"
    by (simp_all add: run_defs)
  have "drawn_positions (calls_since sample_world (snd ?pick)) =
          filter (\<lambda>i. visible (props (?ls ! i)) \<and> (\<not> True \<or> pickable (props (?ls ! i))) \<and>
                       (case None of None \<Rightarrow> True | Some f \<Rightarrow> f (?ls ! i) sample_viewport True))
            [0..<length ?ls]"
    using drawLayersInViewport_draws_eligible[OF surjective_pairing[of ?pick]] p
    by blast
  then have 1: "drawn_positions (calls_since sample_world (snd ?pick)) = [2]"
    by (simp add: sample_layer_def)
  have "drawn_positions (calls_since sample_world (snd ?draw)) =
          filter (\<lambda>i. visible (props (?ls ! i)) \<and> (\<not> False \<or> pickable (props (?ls ! i))) \<and>
                       (case None of None \<Rightarrow> True | Some f \<Rightarrow> f (?ls ! i) sample_viewport False))
            [0..<length ?ls]"
    using drawLayersInViewport_draws_eligible[OF surjective_pairing[of ?draw]] d
    by blast
  then have 2: "drawn_positions (calls_since sample_world (snd ?draw)) = [1, 2]"
    by (simp add: sample_layer_def)
  from p d 1 2 show ?thesis by simp
qed

text \<open>Claim C1 as it was stated fails where a draw operation raises: the first of two visible
  layers raises in a normal pass with no filter, and the second, which meets the condition, is
  not drawn.\<close>

theorem eligible_layer_after_failure_not_drawn:
  "visible (props (sample_layer True False None None :: string layer)) \<and>
   fst (drawLayersInViewport
          [sample_layer True False None (Some ''boom''), sample_layer True False None None]
          sample_viewport (Some True) False None None ''draw'' ''test'' sample_world) =
     Inl (Raised ''boom'') \<and>
   drawn_positions (calls_since sample_world (snd (drawLayersInViewport
          [sample_layer True False None (Some ''boom''), sample_layer True False None None]
          sample_viewport (Some True) False None None ''draw'' ''test'' sample_world))) = [0]"
  by (simp add: run_defs)

text \<open>Claim C4, amended. In a picking pass, for every layer list, every draw invocation is that
  of a visible and pickable layer of the list, and the blend colour it is given has an alpha
  channel of \<open>(i + 1) / 255\<close>, where \<open>i\<close> is the position of the layer in the input list,
  counted from 0 (the same number is passed as the uniform \<^verbatim>\<open>layerIndex\<close>): a layer that is
  skipped still takes up its position.\<close>

theorem picking_blendColor_encodes_list_position:
  assumes "DrawLayer i opts s r \<in>
           set (calls_since w (snd (drawLayersInViewport layers vp u True pp F pass reason w)))"
  shows "i < length layers \<and>
         visible (props (layers ! i)) \<and> pickable (props (layers ! i)) \<and>
         r = fst (drawLayer (layers ! i) opts s) \<and>
         opt_uniforms opts ''layerIndex'' = Some (PNum (real i)) \<and>
         opt_parameters opts ''blendColor'' = Some (PVec [0, 0, 0, (real i + 1) / 255])"
proof -
  obtain r' w' where run: "drawLayersInViewport layers vp u True pp F pass reason w = (r', w')"
    by (cases "drawLayersInViewport layers vp u True pp F pass reason w") auto
  from drawLayersInViewport_prefix[OF run] obtain cs g s0 where
    cs: "gl_calls w' = gl_calls w @ cs" "prefix cs (eligible_calls True F vp g pp s0 0 layers)"
    by blast
  have "calls_since w w' = cs"
    using cs(1) by (rule calls_since_append)
  with assms run have "DrawLayer i opts s r \<in> set cs"
    by simp
  with cs(2) have "DrawLayer i opts s r \<in> set (eligible_calls True F vp g pp s0 0 layers)"
    using set_mono_prefix by blast
  from in_eligible_calls[OF this] obtain j where
    j: "j < length layers" "shouldDrawLayer True F vp (layers ! j)"
      "DrawLayer i opts s r = layer_call (layers ! j) j True g pp s0"
    by blast
  from j(3) have ij: "i = j"
    and opts: "opts = \<lparr>opt_moduleParameters = resolve_moduleParameters (layers ! j) True,
                        opt_uniforms = resolve_uniforms (layers ! j) j True,
                        opt_parameters = resolve_layerParameters (layers ! j) j True g pp\<rparr>"
    and r: "r = fst (drawLayer (layers ! j) opts s)"
    by (simp_all add: layer_call_def Let_def)
  from j(2) have "visible (props (layers ! j))" "pickable (props (layers ! j))"
    by (simp_all add: shouldDrawLayer_iff)
  moreover have "opt_uniforms opts ''layerIndex'' = Some (PNum (real j))"
    by (simp add: opts resolve_uniforms_def)
  moreover have "opt_parameters opts ''blendColor'' = Some (PVec [0, 0, 0, (real j + 1) / 255])"
    by (simp add: opts resolve_layerParameters_def)
  ultimately show ?thesis
    using j(1) ij r by simp
qed

text \<open>Four layers, the first and the third skipped in a picking pass: the two layers drawn are
  given the alphas 2/255 and 4/255 of their list positions 1 and 3.\<close>

theorem picking_blendColor_witness:
  "map (parameter_of ''blendColor'') (calls_since sample_world (snd (drawLayersInViewport
      [sample_layer False True None None, sample_layer True True None None,
       sample_layer True False None None, sample_layer True True None None]
      sample_viewport (Some True) True (Some picking_parameters) None ''picking'' ''test'' sample_world))) =
   [Some (PVec [0, 0, 0, 2 / 255]), Some (PVec [0, 0, 0, 4 / 255])]"
proof -
  let ?run = "drawLayersInViewport
      [sample_layer False True None None, sample_layer True True None None,
       sample_layer True False None None, sample_layer True True None None]
      sample_viewport (Some True) True (Some picking_parameters) None ''picking'' ''test'' sample_world"
  obtain o1 s1 r1 o2 s2 r2 where
    cs: "calls_since sample_world (snd ?run) = [DrawLayer 1 o1 s1 r1, DrawLayer 3 o2 s2 r2]"
    by (simp add: run_defs)
  have m1: "DrawLayer 1 o1 s1 r1 \<in> set (calls_since sample_world (snd ?run))"
    and m2: "DrawLayer 3 o2 s2 r2 \<in> set (calls_since sample_world (snd ?run))"
    using cs by simp_all
  have "opt_parameters o1 ''blendColor'' = Some (PVec [0, 0, 0, (real 1 + 1) / 255])"
    using picking_blendColor_encodes_list_position[OF m1] by blast
  moreover have "opt_parameters o2 ''blendColor'' = Some (PVec [0, 0, 0, (real 3 + 1) / 255])"
    using picking_blendColor_encodes_list_position[OF m2] by blast
  ultimately show ?thesis
    using cs by simp
qed

text \<open>Claim C4 as it was stated fails where a layer is skipped: \<^verbatim>\<open>drawPickingBuffer\<close> on
  three layers of which the first two are not visible makes two calls, the clearing and one
  draw; the only layer drawn, first among the drawn, is given the alpha 3/255, which is
  neither 2/255 nor 1/255.\<close>

theorem first_drawn_layer_alpha_counterexample:
  "drawn_positions (calls_since sample_world (snd (drawPickingBuffer
      [sample_layer False True None None, sample_layer False True None None,
       sample_layer True True None None]
      [PlainViewport sample_viewport] (\<lambda>v ls. ls) (Some True) ''pickingFBO'' (0, 0, 1, 1) None ''test''
      sample_world))) = [2] \<and>
   map (parameter_of ''blendColor'') (calls_since sample_world (snd (drawPickingBuffer
      [sample_layer False True None None, sample_layer False True None None,
       sample_layer True True None None]
      [PlainViewport sample_viewport] (\<lambda>v ls. ls) (Some True) ''pickingFBO'' (0, 0, 1, 1) None ''test''
      sample_world))) = [None, Some (PVec [0, 0, 0, 3 / 255])] \<and>
   (3 / 255 :: real) \<noteq> (1 + 1) / 255 \<and> (3 / 255 :: real) \<noteq> (0 + 1) / 255"
  by (simp add: run_defs drawPickingBuffer_def)

text \<open>What a per-viewport draw that completes tells the log, at a priority above the
  drawing priority: the render counter after its increment, and the four counters the
  iteration ends with.\<close>

lemma drawLayersInViewport_log_line:
  assumes "drawLayersInViewport layers vp u D pp F pass reason w = (Inr (), w')"
    and "log_priority w > LOG_PRIORITY_DRAW"
  shows "log_lines w' = log_lines w @
           [\<lparr>line_renderCount = renderCount w + 1,
             line_visibleCount =
               length (filter (\<lambda>l. shouldDrawLayer D F vp l \<and> \<not> isComposite l) layers),
             line_totalCount = length layers,
             line_pass = pass,
             line_redrawReason = reason,
             line_detail =
               Some (int (length layers) - int (length (filter isComposite layers))
                       - int (length (filter (\<lambda>l. shouldDrawLayer D F vp l \<and> \<not> isComposite l) layers)),
                     length (filter isComposite layers),
                     length (filter (\<lambda>l. shouldDrawLayer D F vp l \<and> pickable (props l)) layers))\<rparr>]"
proof -
  from assms(1) obtain pixelRatio where pr: "getPixelRatio u w = (Inr pixelRatio :: 'a error + real)"
    by (cases "getPixelRatio u w :: 'a error + real") (auto simp: drawLayersInViewport_def)
  let ?w1 = "setParameters (case pp of None \<Rightarrow> Map.empty | Some p \<Rightarrow> p) w"
  let ?g = "getGLViewport w vp pixelRatio"
  obtain r2 w2 where loop:
    "layers_forEach D F vp ?g pp layers 0 (initial_renderStats layers) ?w1 = (r2, w2)"
    by (cases "layers_forEach D F vp ?g pp layers 0 (initial_renderStats layers) ?w1") auto
  with assms(1) pr obtain st where st: "r2 = Inr st"
    and w': "w' = logRenderStats st pass reason (w2\<lparr>renderCount := renderCount w2 + 1\<rparr>)"
    by (cases r2) (auto simp: drawLayersInViewport_def Let_def)
  from loop st have loop': 
    "layers_forEach D F vp ?g pp layers 0 (initial_renderStats layers) ?w1 = (Inr st, w2)"
    by simp
  note w2 = layers_forEach_stats(2-4)[OF loop']
  from layers_forEach_stats(1)[OF loop'] have "st = \<lparr>totalCount = length layers,
                   visibleCount = length (filter (\<lambda>l. shouldDrawLayer D F vp l \<and> \<not> isComposite l) layers),
                   compositeCount = length (filter isComposite layers),
                   pickableCount = length (filter (\<lambda>l. shouldDrawLayer D F vp l \<and> pickable (props l)) layers)\<rparr>"
    by (simp add: foldl_count_layer initial_renderStats_def)
  with w' w2 assms(2) show ?thesis
    by (simp add: logRenderStats_def setParameters_def LOG_PRIORITY_DRAW_def Let_def)
qed

text \<open>Claim C7, amended. For every per-viewport draw, \<^verbatim>\<open>visibleCount\<close>, \<^verbatim>\<open>compositeCount\<close>
  and \<^verbatim>\<open>pickableCount\<close> start at zero and \<^verbatim>\<open>totalCount\<close> starts at the number of layers;
  after an iteration that completes, \<^verbatim>\<open>totalCount\<close> is still the number of layers,
  \<^verbatim>\<open>pickableCount\<close> is the number of layers that pass the draw test and are pickable,
  \<^verbatim>\<open>compositeCount\<close> the number of composite layers, and \<^verbatim>\<open>visibleCount\<close> the number of
  layers that pass the draw test (and so are drawn) and are not composite.\<close>

theorem renderStats_after_iteration:
  "totalCount (initial_renderStats layers) = length layers \<and>
   visibleCount (initial_renderStats layers) = 0 \<and>
   compositeCount (initial_renderStats layers) = 0 \<and>
   pickableCount (initial_renderStats layers) = 0 \<and>
   (\<forall>st w'. layers_forEach D F vp g pp layers 0 (initial_renderStats layers) w = (Inr st, w') \<longrightarrow>
      totalCount st = length layers \<and>
      pickableCount st = length (filter (\<lambda>l. shouldDrawLayer D F vp l \<and> pickable (props l)) layers) \<and>
      compositeCount st = length (filter isComposite layers) \<and>
      visibleCount st = length (filter (\<lambda>l. shouldDrawLayer D F vp l \<and> \<not> isComposite l) layers))"
proof -
  have "totalCount st = length layers \<and>
      pickableCount st = length (filter (\<lambda>l. shouldDrawLayer D F vp l \<and> pickable (props l)) layers) \<and>
      compositeCount st = length (filter isComposite layers) \<and>
      visibleCount st = length (filter (\<lambda>l. shouldDrawLayer D F vp l \<and> \<not> isComposite l) layers)"
    if "layers_forEach D F vp g pp layers 0 (initial_renderStats layers) w = (Inr st, w')" for st w'
  proof -
    from layers_forEach_calls[OF that]
    have "st = foldl (\<lambda>s l. count_layer (shouldDrawLayer D F vp l) l s) (initial_renderStats layers) layers"
      by blast
    then show ?thesis
      by (simp add: foldl_count_layer initial_renderStats_def)
  qed
  then show ?thesis
    by (simp add: initial_renderStats_def)
qed

text \<open>Three layers in a normal pass: one not visible, one visible and composite, one visible
  and pickable; the iteration completes with the counts 3, 1, 1 and 1.\<close>

theorem renderStats_witness:
  "fst (layers_forEach False None sample_viewport [0, 0, 1600, 1200] None
          [sample_layer False True None None,
           (sample_layer True False None None)\<lparr>isComposite := True\<rparr>,
           sample_layer True True None None]
          0
          (initial_renderStats
             [sample_layer False True None None,
              (sample_layer True False None None)\<lparr>isComposite := True\<rparr>,
              sample_layer True True None None])
          sample_world) =
     Inr \<lparr>totalCount = 3, visibleCount = 1, compositeCount = 1, pickableCount = 1\<rparr>"
proof -
  let ?ls = "[sample_layer False True None None,
              (sample_layer True False None None)\<lparr>isComposite := True\<rparr>,
              sample_layer True True None None]"
  let ?run = "layers_forEach False None sample_viewport [0, 0, 1600, 1200] None ?ls 0
                (initial_renderStats ?ls) sample_world"
  obtain st where st: "?run = (Inr st, snd ?run)"
    by (simp add: run_defs)
  with renderStats_after_iteration[of ?ls False None sample_viewport "[0, 0, 1600, 1200]" None sample_world]
  have "totalCount st = length ?ls"
    "pickableCount st = length (filter (\<lambda>l. shouldDrawLayer False None sample_viewport l \<and> pickable (props l)) ?ls)"
    "compositeCount st = length (filter isComposite ?ls)"
    "visibleCount st = length (filter (\<lambda>l. shouldDrawLayer False None sample_viewport l \<and> \<not> isComposite l) ?ls)"
    by blast+
  then have "st = \<lparr>totalCount = 3, visibleCount = 1, compositeCount = 1, pickableCount = 1\<rparr>"
    by (simp add: shouldDrawLayer_def sample_layer_def)
  with st show ?thesis
    by (metis fst_conv)
qed

text \<open>Claim C7 as it was stated fails for \<^verbatim>\<open>totalCount\<close>: with one layer in the list it
  starts at 1, not at zero.\<close>

theorem totalCount_not_reset_to_zero:
  "totalCount (initial_renderStats [sample_layer True True None None]) = 1"
  by (simp add: initial_renderStats_def)

text \<open>A draw operation that raises is not intercepted: if, during a pass of \<^verbatim>\<open>drawLayers\<close>,
  the draw operation of some layer raises, then the pass ends with exactly that failure,
  unchanged, and the failing call is the last call of the pass, so that no layer after the
  failing one is drawn, in that viewport or a later one.\<close>

lemma draw_failure_ends_pass:
  assumes "drawLayers layers viewports onVA u D pp F pass reason w = (r, w')"
    and "c \<in> set (calls_since w w')"
    and "raised c = Some e"
  shows "r = Inl (Raised e) \<and>
         (\<exists>cs. calls_since w w' = cs @ [c] \<and> (\<forall>c'\<in>set cs. raised c' = None))"
proof (cases u)
  case None
  with assms(1) have "gl_calls w' = gl_calls (clearCanvas w)"
    by (auto simp: drawLayers_def viewports_forEach_not_boolean split: if_splits)
  then have "calls_since w w' = [Clear (gl_state w ++ [''viewport'' \<mapsto> PVec [0, 0, drawingBufferWidth w, drawingBufferHeight w]])]"
    by (simp add: calls_since_def clearCanvas_frame)
  with assms(2,3) show ?thesis by simp
next
  case (Some b)
  with assms(1) have run:
    "viewports_forEach onVA (Some b) D pp F pass reason viewports layers (clearCanvas w) = (r, w')"
    by (simp add: drawLayers_def)
  let ?clear = "Clear (gl_state w ++ [''viewport'' \<mapsto> PVec [0, 0, drawingBufferWidth w, drawingBufferHeight w]])"
  from viewports_forEach_calls[OF run] obtain cs where
    cs: "gl_calls w' = gl_calls (clearCanvas w) @ cs"
      "r = Inr () \<longrightarrow> (\<forall>c\<in>set cs. raised c = None)"
      "\<forall>x. r = Inl x \<longrightarrow>
         (\<exists>cs' c e. cs = cs' @ [c] \<and> (\<forall>c'\<in>set cs'. raised c' = None) \<and>
                    raised c = Some e \<and> x = Raised e)"
    by (elim exE conjE)
  have since: "calls_since w w' = ?clear # cs"
    using cs(1) by (simp add: calls_since_def clearCanvas_frame)
  with assms(2,3) have c_in: "c \<in> set cs"
    by auto
  have "r \<noteq> Inr ()"
    using cs(2) c_in assms(3) by auto
  then obtain x where x: "r = Inl x"
    by (cases r) auto
  with cs(3) obtain cs' c2 e2 where
    last: "cs = cs' @ [c2]" "\<forall>c'\<in>set cs'. raised c' = None" "raised c2 = Some e2" "x = Raised e2"
    by blast
  with c_in assms(3) have "c = c2"
    by auto
  with last assms(3) have "e2 = e"
    by simp
  have "calls_since w w' = (?clear # cs') @ [c] \<and> (\<forall>c'\<in>set (?clear # cs'). raised c' = None)"
    using since last \<open>c = c2\<close> by simp
  then have "\<exists>cs. calls_since w w' = cs @ [c] \<and> (\<forall>c'\<in>set cs. raised c' = None)"
    by blast
  then show ?thesis
    using x last(4) \<open>e2 = e\<close> by simp
qed

text \<open>The scoped application puts the prior GPU parameter state back when its callback
  returns, and when it raises if the parameters carry \<^verbatim>\<open>nocatch: false\<close>.\<close>

lemma withParameters_restores:
  "\<not> (nocatch ps \<and> isl (fst (func (setParameters ps w)))) \<Longrightarrow>
   gl_state (snd (withParameters ps func w)) = gl_state w"
  by (cases "func (setParameters ps w)") (auto simp: withParameters_def Let_def)

text \<open>Claim C8. A layer's draw operation that raises mid-pass is not intercepted, no layer
  after it is drawn and what it raised reaches the caller of \<^verbatim>\<open>drawLayers\<close> unchanged; the
  claim adds that the scoped parameter application still restores the prior GPU state before
  the failure propagates, as the comment in \<^verbatim>\<open>drawPickingBuffer\<close> expects. The program does
  not: it never passes \<^verbatim>\<open>nocatch: false\<close>. Three layers in two viewports, the second layer
  raising, on a GPU state with no parameter set: the pass fails with what the layer raised
  after the first two layers of the first viewport, and the failing layer's device-pixel
  viewport rectangle and the line width its draw operation set are still in force; after a
  picking pass of the same layers the picking framebuffer, the scissor test and the scissor
  rectangle are still in force too.\<close>

theorem draw_failure_leaves_parameters_in_force:
  "gl_state sample_world = Map.empty \<and>
   fst (drawLayers
          [sample_layer True True None None, sample_layer True True None (Some ''boom''),
           sample_layer True True None None]
          [PlainViewport sample_viewport, Descriptor sample_viewport] (\<lambda>v ls. ls)
          (Some True) False (Some [''depthTest'' \<mapsto> PBool True]) None ''draw'' ''test'' sample_world) =
     Inl (Raised ''boom'') \<and>
   drawn_positions (calls_since sample_world (snd (drawLayers
          [sample_layer True True None None, sample_layer True True None (Some ''boom''),
           sample_layer True True None None]
          [PlainViewport sample_viewport, Descriptor sample_viewport] (\<lambda>v ls. ls)
          (Some True) False (Some [''depthTest'' \<mapsto> PBool True]) None ''draw'' ''test'' sample_world))) =
     [0, 1] \<and>
   map (gl_state (snd (drawLayers
          [sample_layer True True None None, sample_layer True True None (Some ''boom''),
           sample_layer True True None None]
          [PlainViewport sample_viewport, Descriptor sample_viewport] (\<lambda>v ls. ls)
          (Some True) False (Some [''depthTest'' \<mapsto> PBool True]) None ''draw'' ''test'' sample_world)))
       [''depthTest'', ''viewport'', ''lineWidth''] =
     [Some (PBool True), Some (PVec [0, 0, 1600, 1200]), Some (PNum 3)] \<and>
   fst (drawPickingBuffer
          [sample_layer True True None None, sample_layer True True None (Some ''boom''),
           sample_layer True True None None]
          [PlainViewport sample_viewport, Descriptor sample_viewport] (\<lambda>v ls. ls)
          (Some True) ''pickingFBO'' (10, 20, 1, 1) None ''test'' sample_world) =
     Inl (Raised ''boom'') \<and>
   map (gl_state (snd (drawPickingBuffer
          [sample_layer True True None None, sample_layer True True None (Some ''boom''),
           sample_layer True True None None]
          [PlainViewport sample_viewport, Descriptor sample_viewport] (\<lambda>v ls. ls)
          (Some True) ''pickingFBO'' (10, 20, 1, 1) None ''test'' sample_world)))
       [''framebuffer'', ''scissorTest'', ''scissor'', ''viewport'', ''lineWidth''] =
     [Some (PRef ''pickingFBO''), Some (PBool True), Some (PVec [10, 20, 1, 1]),
      Some (PVec [0, 0, 1600, 1200]), Some (PNum 3)]"
  by (simp add: run_defs drawPickingBuffer_def picking_parameters_def)

text \<open>Claim C10. \<^verbatim>\<open>drawLayerInViewport\<close> invokes the draw operation once, under the resolved
  parameters it also passes as argument; in them the key \<^verbatim>\<open>viewport\<close> is the device-pixel
  rectangle, in a picking pass the key \<^verbatim>\<open>blendColor\<close> is the encoded list position, whatever
  the layer or the pass said for them, and every other key present both in the layer's own
  parameters and in the pass-level ones has the pass-level value.\<close>

theorem layerParameters_precedence:
  "\<exists>opts s r.
     calls_since w (snd (drawLayerInViewport layer i D g pp w)) = [DrawLayer i opts s r] \<and>
     s = gl_state w ++ opt_parameters opts \<and>
     opt_parameters opts ''viewport'' = Some (PVec g) \<and>
     (D \<longrightarrow> opt_parameters opts ''blendColor'' = Some (PVec [0, 0, 0, (real i + 1) / 255])) \<and>
     (\<forall>k lp ps. props_parameters (props layer) = Some lp \<and> pp = Some ps \<and>
                k \<in> dom lp \<and> k \<in> dom ps \<and> k \<noteq> ''viewport'' \<and> (D \<longrightarrow> k \<noteq> ''blendColor'') \<longrightarrow>
                opt_parameters opts k = ps k)"
proof -
  let ?opts = "\<lparr>opt_moduleParameters = resolve_moduleParameters layer D,
                 opt_uniforms = resolve_uniforms layer i D,
                 opt_parameters = resolve_layerParameters layer i D g pp\<rparr>"
  let ?s = "gl_state w ++ resolve_layerParameters layer i D g pp"
  have "calls_since w (snd (drawLayerInViewport layer i D g pp w)) =
          [DrawLayer i ?opts ?s (fst (drawLayer layer ?opts ?s))]"
    by (simp add: drawLayerInViewport_eq calls_since_def layer_call_def Let_def)
  moreover have "resolve_layerParameters layer i D g pp ''viewport'' = Some (PVec g)"
    by (simp add: resolve_layerParameters_def Let_def)
  moreover have "D \<longrightarrow> resolve_layerParameters layer i D g pp ''blendColor'' =
                     Some (PVec [0, 0, 0, (real i + 1) / 255])"
    by (simp add: resolve_layerParameters_def Let_def)
  moreover have "resolve_layerParameters layer i D g pp k = ps k"
    if "props_parameters (props layer) = Some lp" "pp = Some ps" "k \<in> dom ps"
       "k \<noteq> ''viewport''" "D \<longrightarrow> k \<noteq> ''blendColor''" for k lp ps
    using that by (auto simp: resolve_layerParameters_def Let_def map_add_def split: option.splits)
  ultimately show ?thesis
    by (intro exI[of _ ?opts] exI[of _ ?s] exI[of _ "fst (drawLayer layer ?opts ?s)"]) simp
qed

text \<open>A layer whose own parameters set \<^verbatim>\<open>blend\<close>, \<^verbatim>\<open>blendColor\<close> and \<^verbatim>\<open>viewport\<close>, drawn at
  position 4 under the pass-level parameters of the picking pass: \<^verbatim>\<open>blend\<close> is the
  pass-level value, \<^verbatim>\<open>viewport\<close> the device-pixel rectangle and \<^verbatim>\<open>blendColor\<close> the
  encoding of position 4.\<close>

theorem layerParameters_witness:
  "map (parameter_of ''blend'') (calls_since sample_world (snd (drawLayerInViewport
      (sample_layer True True
         (Some [''blend'' \<mapsto> PBool False, ''blendColor'' \<mapsto> PVec [1, 1, 1, 1],
                ''viewport'' \<mapsto> PVec [0, 0, 1, 1]]) None)
      4 True [0, 0, 1600, 1200] (Some picking_parameters) sample_world))) = [Some (PBool True)] \<and>
   map (parameter_of ''viewport'') (calls_since sample_world (snd (drawLayerInViewport
      (sample_layer True True
         (Some [''blend'' \<mapsto> PBool False, ''blendColor'' \<mapsto> PVec [1, 1, 1, 1],
                ''viewport'' \<mapsto> PVec [0, 0, 1, 1]]) None)
      4 True [0, 0, 1600, 1200] (Some picking_parameters) sample_world))) =
     [Some (PVec [0, 0, 1600, 1200])] \<and>
   map (parameter_of ''blendColor'') (calls_since sample_world (snd (drawLayerInViewport
      (sample_layer True True
         (Some [''blend'' \<mapsto> PBool False, ''blendColor'' \<mapsto> PVec [1, 1, 1, 1],
                ''viewport'' \<mapsto> PVec [0, 0, 1, 1]]) None)
      4 True [0, 0, 1600, 1200] (Some picking_parameters) sample_world))) =
     [Some (PVec [0, 0, 0, 5 / 255])]"
proof -
  let ?lp = "[''blend'' \<mapsto> PBool False, ''blendColor'' \<mapsto> PVec [1, 1, 1, 1],
              ''viewport'' \<mapsto> PVec [0, 0, 1, 1]]"
  let ?layer = "sample_layer True True (Some ?lp) None"
  let ?run = "drawLayerInViewport ?layer 4 True [0, 0, 1600, 1200] (Some picking_parameters) sample_world"
  from layerParameters_precedence[of sample_world ?layer 4 True "[0, 0, 1600, 1200]" "Some picking_parameters"]
  obtain opts s r where
    cs: "calls_since sample_world (snd ?run) = [DrawLayer 4 opts s r]"
    and vp: "opt_parameters opts ''viewport'' = Some (PVec [0, 0, 1600, 1200])"
    and bc: "opt_parameters opts ''blendColor'' = Some (PVec [0, 0, 0, (real 4 + 1) / 255])"
    and both: "\<And>k lp ps. props_parameters (props ?layer) = Some lp \<and> Some picking_parameters = Some ps \<and>
                k \<in> dom lp \<and> k \<in> dom ps \<and> k \<noteq> ''viewport'' \<and> (True \<longrightarrow> k \<noteq> ''blendColor'') \<Longrightarrow>
                opt_parameters opts k = ps k"
    by blast
  have "opt_parameters opts ''blend'' = picking_parameters ''blend''"
    by (rule both[of ?lp picking_parameters "''blend''"])
      (simp add: sample_layer_def picking_parameters_def)
  then have "opt_parameters opts ''blend'' = Some (PBool True)"
    by (simp add: picking_parameters_def)
  with cs vp bc show ?thesis
    by simp
qed

section \<open>The claims about the orbit viewport\<close>

text \<open>Claim C2, with numbers read as reals, where the tolerance of the claim becomes equality.
  For every orbit viewport whose \<^verbatim>\<open>transformVector\<close> multiplies by the matrix and divides by
  the fourth coordinate and whose pixel-unprojection matrix inverts its pixel-projection
  matrix, and for every world point whose projection has a fourth coordinate other than zero,
  as every point inside the view frustum has, \<^verbatim>\<open>unproject\<close> of \<^verbatim>\<open>project\<close> of the point, with
  the same \<^verbatim>\<open>topLeft\<close> option in both calls, is the point, with homogeneous coordinate 1. In
  particular this holds on the camera of width 800, height 600, distance 10, fov 75, near 1
  and far 100 that looks at the origin, for every point less than 5 away from the origin.\<close>

theorem unproject_project_round_trip:
  "(transformVector I = ref_transformVector \<and>
    (\<forall>v. vec4_transformMat4 (pixelUnprojectionMatrix (base this))
           (vec4_transformMat4 (pixelProjectionMatrix (base this)) v) = v) \<and>
    snd (snd (snd (vec4_transformMat4 (pixelProjectionMatrix (base this)) (x, y, z, 1)))) \<noteq> 0 \<longrightarrow>
    unproject I this (project I this (x, y, z) t) t = (x, y, z, 1)) \<and>
   (sqrt (px\<^sup>2 + py\<^sup>2 + pz\<^sup>2) < 5 \<longrightarrow>
    unproject reference_imports (OrbitViewport_new reference_imports sample_args)
      (project reference_imports (OrbitViewport_new reference_imports sample_args) (px, py, pz) t) t =
      (px, py, pz, 1))"
proof (intro conjI impI)
  assume "transformVector I = ref_transformVector \<and>
    (\<forall>v. vec4_transformMat4 (pixelUnprojectionMatrix (base this))
           (vec4_transformMat4 (pixelProjectionMatrix (base this)) v) = v) \<and>
    snd (snd (snd (vec4_transformMat4 (pixelProjectionMatrix (base this)) (x, y, z, 1)))) \<noteq> 0"
  then show "unproject I this (project I this (x, y, z) t) t = (x, y, z, 1)"
    by (intro round_trip) simp_all
next
  assume "sqrt (px\<^sup>2 + py\<^sup>2 + pz\<^sup>2) < 5"
  then have "pz < 5"
    by (rule within_five)
  then show "unproject reference_imports (OrbitViewport_new reference_imports sample_args)
      (project reference_imports (OrbitViewport_new reference_imports sample_args) (px, py, pz) t) t =
      (px, py, pz, 1)"
    by (intro round_trip) (simp_all add: sample_inverse sample_depth, simp add: reference_imports_def)
qed

text \<open>The camera of claim C2 meets the contract; the point \<open>(1, 2, 3)\<close>, at depth 7 and less
  than 5 away from the origin, comes back from its projection, and the origin, projected to
  the centre of the 800 by 600 pixels at depth 9/11, comes back from there.\<close>

theorem unproject_project_round_trip_witness:
  "transformVector reference_imports = ref_transformVector \<and>
   (\<forall>v. vec4_transformMat4 (pixelUnprojectionMatrix (base (OrbitViewport_new reference_imports sample_args)))
          (vec4_transformMat4 (pixelProjectionMatrix (base (OrbitViewport_new reference_imports sample_args))) v) = v) \<and>
   snd (snd (snd (vec4_transformMat4
     (pixelProjectionMatrix (base (OrbitViewport_new reference_imports sample_args))) (1, 2, 3, 1)))) = 7 \<and>
   sqrt (1\<^sup>2 + 2\<^sup>2 + 3\<^sup>2) < (5 :: real) \<and>
   unproject reference_imports (OrbitViewport_new reference_imports sample_args)
     (project reference_imports (OrbitViewport_new reference_imports sample_args) (1, 2, 3) (Some True))
     (Some True) = (1, 2, 3, 1) \<and>
   project reference_imports (OrbitViewport_new reference_imports sample_args) (0, 0, 0) None =
     (400, 300, 9 / 11) \<and>
   unproject reference_imports (OrbitViewport_new reference_imports sample_args) (400, 300, 9 / 11) None =
     (0, 0, 0, 1)"
proof -
  let ?cam = "OrbitViewport_new reference_imports sample_args"
  have tv: "transformVector reference_imports = ref_transformVector"
    by (simp add: reference_imports_def)
  have inv: "\<forall>v. vec4_transformMat4 (pixelUnprojectionMatrix (base ?cam))
          (vec4_transformMat4 (pixelProjectionMatrix (base ?cam)) v) = v"
    by (simp add: sample_inverse)
  have depth: "snd (snd (snd (vec4_transformMat4 (pixelProjectionMatrix (base ?cam)) (1, 2, 3, 1)))) = 7"
    by (simp add: sample_depth)
  have depth0: "snd (snd (snd (vec4_transformMat4 (pixelProjectionMatrix (base ?cam)) (0, 0, 0, 1)))) = 10"
    by (simp add: sample_depth)
  have near: "sqrt (1\<^sup>2 + 2\<^sup>2 + 3\<^sup>2) < (5 :: real)"
    by (rule real_less_lsqrt) simp_all
  have p0: "project reference_imports ?cam (0, 0, 0) None = (400, 300, 9 / 11)"
    by (simp add: project_def default_to_def Let_def tv sample_pixelProjectionMatrix
        ref_transformVector_def vec4_transformMat4_def)
  have 1: "unproject reference_imports ?cam (project reference_imports ?cam (1, 2, 3) (Some True))
             (Some True) = (1, 2, 3, 1)"
    using unproject_project_round_trip[of reference_imports ?cam 1 2 3 "Some True" 1 2 3]
      tv inv depth by simp
  have "unproject reference_imports ?cam (project reference_imports ?cam (0, 0, 0) None) None =
          (0, 0, 0, 1)"
    using unproject_project_round_trip[of reference_imports ?cam 0 0 0 None 0 0 0]
      tv inv depth0 by simp
  then have 2: "unproject reference_imports ?cam (400, 300, 9 / 11) None = (0, 0, 0, 1)"
    by (simp only: p0)
  from tv inv depth near 1 p0 2 show ?thesis
    by (intro conjI)
qed

text \<open>Claim C3. For every orbit viewport and every bounding box \<open>(m0, m1, m2)\<close>,
  \<^verbatim>\<open>fitBounds\<close> returns an orbit viewport whose distance is the largest of the three
  extents divided by \<open>tan (fov * pi / 360)\<close> and whose other parameters (width, height,
  rotationX, rotationOrbit, orbitAxis, lookAt, up, fov, near, far, zoom) are those of the
  viewport it was called on.\<close>

theorem fitBounds_recomputes_distance_only:
  "distance (fitBounds I this (m0, m1, m2)) = max (max m0 m1) m2 / tan (fov this * pi / 360) \<and>
   width (fitBounds I this (m0, m1, m2)) = width this \<and>
   height (fitBounds I this (m0, m1, m2)) = height this \<and>
   rotationX (fitBounds I this (m0, m1, m2)) = rotationX this \<and>
   rotationOrbit (fitBounds I this (m0, m1, m2)) = rotationOrbit this \<and>
   orbitAxis (fitBounds I this (m0, m1, m2)) = orbitAxis this \<and>
   lookAt (fitBounds I this (m0, m1, m2)) = lookAt this \<and>
   up (fitBounds I this (m0, m1, m2)) = up this \<and>
   fov (fitBounds I this (m0, m1, m2)) = fov this \<and>
   near (fitBounds I this (m0, m1, m2)) = near this \<and>
   far (fitBounds I this (m0, m1, m2)) = far this \<and>
   zoom (fitBounds I this (m0, m1, m2)) = zoom this"
proof -
  have "fov this / 180 * pi / 2 = fov this * pi / 360"
    by simp
  then show ?thesis
    by (simp add: fitBounds_def default_to_def Let_def)
qed

text \<open>The sample camera fitted to the box \<open>(2, 5, 3)\<close>: the distance becomes
  \<open>5 / tan (75 * pi / 360)\<close>, the other parameters stay.\<close>

theorem fitBounds_witness:
  "distance (fitBounds reference_imports (OrbitViewport_new reference_imports sample_args) (2, 5, 3)) =
     5 / tan (75 * pi / 360) \<and>
   width (fitBounds reference_imports (OrbitViewport_new reference_imports sample_args) (2, 5, 3)) = 800 \<and>
   zoom (fitBounds reference_imports (OrbitViewport_new reference_imports sample_args) (2, 5, 3)) = 1 \<and>
   orbitAxis (fitBounds reference_imports (OrbitViewport_new reference_imports sample_args) (2, 5, 3)) = ''Z''"
  using fitBounds_recomputes_distance_only[of reference_imports
          "OrbitViewport_new reference_imports sample_args" 2 5 3]
  by (simp add: sample_args_def default_to_def)

text \<open>Claim C5, amended. The constructor does not check \<^verbatim>\<open>orbitAxis\<close>: for every value other
  than \<^verbatim>\<open>'Z'\<close> (\<^verbatim>\<open>'X'\<close>, for one) construction completes, the rotation about the orbit
  axis is the rotation about Y, and the object is the one built for \<^verbatim>\<open>'Y'\<close> but for the
  value stored in its \<^verbatim>\<open>orbitAxis\<close> field.\<close>

theorem orbitAxis_other_than_Z_is_Y:
  "x \<noteq> ''Z'' \<Longrightarrow>
   OrbitViewport_new I (a\<lparr>arg_orbitAxis := Some x\<rparr>) =
     (OrbitViewport_new I (a\<lparr>arg_orbitAxis := Some ''Y''\<rparr>))\<lparr>orbitAxis := x\<rparr>"
  by (simp add: OrbitViewport_new_def OrbitViewport_super_def default_to_def Let_def)

text \<open>The sample camera with \<^verbatim>\<open>orbitAxis\<close> \<^verbatim>\<open>'X'\<close>: it keeps the value, and what the base
  constructor built is what it builds for \<^verbatim>\<open>'Y'\<close>.\<close>

theorem orbitAxis_other_than_Z_is_Y_witness:
  "''X'' \<noteq> ''Z'' \<and>
   orbitAxis (OrbitViewport_new reference_imports (sample_args\<lparr>arg_orbitAxis := Some ''X''\<rparr>)) = ''X'' \<and>
   base (OrbitViewport_new reference_imports (sample_args\<lparr>arg_orbitAxis := Some ''X''\<rparr>)) =
     base (OrbitViewport_new reference_imports (sample_args\<lparr>arg_orbitAxis := Some ''Y''\<rparr>))"
  using orbitAxis_other_than_Z_is_Y[of "''X''" reference_imports sample_args]
  by simp

text \<open>Claim C5 as it was stated fails: constructing the sample camera with \<^verbatim>\<open>orbitAxis\<close>
  \<^verbatim>\<open>'X'\<close> and an orbit rotation of 90 degrees completes, with this object; its view matrix is
  the look-at matrix rotated a quarter turn about Y.\<close>

theorem orbitAxis_X_constructs:
  "OrbitViewport_new reference_imports
     (sample_args\<lparr>arg_orbitAxis := Some ''X'', arg_rotationOrbit := Some 90\<rparr>) =
     \<lparr>base = ref_Viewport [0, 0, 1, 0, 0, 1, 0, 0, - 1, 0, 0, 0, 0, 0, - 10, 1]
               (ref_perspective (75 * pi / 180) (800 / 600) 1 100) 800 600,
      width = 800, height = 600, distance = 10, rotationX = 0, rotationOrbit = 90,
      orbitAxis = ''X'', lookAt = (0, 0, 0), up = (0, 1, 0), fov = 75, near = 1, far = 100, zoom = 1\<rparr>"
  by (simp add: camera_defs upt_16 upt_4)

text \<open>Claim C6. From its arguments, each absent one replaced by its default, the constructor
  computes and hands to the base constructor, along with the width and the height: as view
  matrix, the product of the look-at matrix (eye \<open>(0, 0, distance)\<close>, target the origin, the
  given up vector), the rotation matrix and the translate matrix, where the rotation matrix
  is the identity rotated about X by \<open>- rotationX\<close> degrees and then about the orbit axis (Z,
  or else Y) by \<open>- rotationOrbit\<close> degrees, both in radians, and the translate matrix is the
  identity scaled by zoom in each direction and then translated by \<open>- lookAt\<close>; as projection
  matrix, the perspective matrix of \<open>fov * pi / 180\<close>, \<open>width / height\<close>, near and far.\<close>

theorem OrbitViewport_matrices:
  "OrbitViewport_super I a =
     (let rotationMatrix =
            (if default_to ''Z'' (arg_orbitAxis a) = ''Z'' then mat4_rotateZ I else mat4_rotateY I)
              (mat4_rotateX I createMat4 (- (default_to 0 (arg_rotationX a) * pi / 180)))
              (- (default_to 0 (arg_rotationOrbit a) * pi / 180));
          translateMatrix =
            mat4_translate I
              (mat4_scale I createMat4
                 (default_to 1 (arg_zoom a), default_to 1 (arg_zoom a), default_to 1 (arg_zoom a)))
              (- fst (default_to (0, 0, 0) (arg_lookAt a)),
               - fst (snd (default_to (0, 0, 0) (arg_lookAt a))),
               - snd (snd (default_to (0, 0, 0) (arg_lookAt a))))
      in \<lparr>super_viewMatrix =
            mat4_multiply I
              (mat4_lookAt I (0, 0, arg_distance a) (0, 0, 0) (default_to (0, 1, 0) (arg_up a)))
              (mat4_multiply I rotationMatrix translateMatrix),
          super_projectionMatrix =
            mat4_perspective I (default_to 75 (arg_fov a) * pi / 180) (arg_width a / arg_height a)
              (default_to 1 (arg_near a)) (default_to 100 (arg_far a)),
          super_width = arg_width a,
          super_height = arg_height a\<rparr>) \<and>
   base (OrbitViewport_new I a) =
     Viewport I (super_viewMatrix (OrbitViewport_super I a))
       (super_projectionMatrix (OrbitViewport_super I a)) (arg_width a) (arg_height a)"
  by (simp add: OrbitViewport_new_def OrbitViewport_super_def DEGREES_TO_RADIANS_def Let_def
      split: prod.splits)

text \<open>A camera turned a quarter about X and a quarter about Z, at zoom 2, looking at
  \<open>(1, 2, 3)\<close> from distance 10: the axes are permuted and doubled, the look-at point is
  brought to the origin and pushed ten units down the Z axis.\<close>

theorem OrbitViewport_matrices_witness:
  "OrbitViewport_super reference_imports
     (sample_args\<lparr>arg_rotationX := Some 90, arg_rotationOrbit := Some 90, arg_zoom := Some 2,
                   arg_lookAt := Some (1, 2, 3), arg_fov := Some 60, arg_near := Some 2,
                   arg_far := Some 50\<rparr>) =
     \<lparr>super_viewMatrix = [0, 0, 2, 0, 2, 0, 0, 0, 0, 2, 0, 0, - 4, - 6, - 12, 1],
      super_projectionMatrix = ref_perspective (60 * pi / 180) (800 / 600) 2 50,
      super_width = 800, super_height = 600\<rparr> \<and>
   base (OrbitViewport_new reference_imports
           (sample_args\<lparr>arg_rotationX := Some 90, arg_rotationOrbit := Some 90, arg_zoom := Some 2,
                         arg_lookAt := Some (1, 2, 3), arg_fov := Some 60, arg_near := Some 2,
                         arg_far := Some 50\<rparr>)) =
     ref_Viewport [0, 0, 2, 0, 2, 0, 0, 0, 0, 2, 0, 0, - 4, - 6, - 12, 1]
       (ref_perspective (60 * pi / 180) (800 / 600) 2 50) 800 600"
proof -
  let ?a = "sample_args\<lparr>arg_rotationX := Some 90, arg_rotationOrbit := Some 90, arg_zoom := Some 2,
                         arg_lookAt := Some (1, 2, 3), arg_fov := Some 60, arg_near := Some 2,
                         arg_far := Some 50\<rparr>"
  note m = OrbitViewport_matrices[of reference_imports ?a]
  have s: "OrbitViewport_super reference_imports ?a =
     \<lparr>super_viewMatrix = [0, 0, 2, 0, 2, 0, 0, 0, 0, 2, 0, 0, - 4, - 6, - 12, 1],
      super_projectionMatrix = ref_perspective (60 * pi / 180) (800 / 600) 2 50,
      super_width = 800, super_height = 600\<rparr>"
    by (subst conjunct1[OF m])
       (simp add: sample_args_def default_to_def Let_def reference_imports_def ref_multiply_def
          ref_lookAt_def ref_normalize_def ref_cross_def ref_dot_def ref_rotateX_def ref_rotateZ_def
          ref_scale_def ref_translate_def createMat4_def upt_16 upt_4)
  have "base (OrbitViewport_new reference_imports ?a) =
     ref_Viewport [0, 0, 2, 0, 2, 0, 0, 0, 0, 2, 0, 0, - 4, - 6, - 12, 1]
       (ref_perspective (60 * pi / 180) (800 / 600) 2 50) 800 600"
    by (subst conjunct2[OF m]) (simp add: s, simp add: reference_imports_def sample_args_def)
  with s show ?thesis
    by (intro conjI)
qed

text \<open>Claim C9. For every orbit viewport and every world point, the Y coordinate that
  \<^verbatim>\<open>project\<close> returns with \<^verbatim>\<open>topLeft\<close> true is the height minus the Y coordinate it returns
  with \<^verbatim>\<open>topLeft\<close> false.\<close>

theorem project_topLeft_flips_y:
  "fst (snd (project I this xyz (Some True))) =
     height this - fst (snd (project I this xyz (Some False)))"
  by (simp add: project_def default_to_def Let_def split: prod.splits)

text \<open>The sample camera looks straight at the origin, which it projects to the centre of its
  800 by 600 pixels at depth 9/11: its Y coordinate is 300 either way.\<close>

theorem project_topLeft_flips_y_witness:
  "project reference_imports (OrbitViewport_new reference_imports sample_args) (0, 0, 0) (Some False) =
     (400, 300, 9 / 11) \<and>
   fst (snd (project reference_imports (OrbitViewport_new reference_imports sample_args) (0, 0, 0)
               (Some True))) = 300"
proof -
  have "project reference_imports (OrbitViewport_new reference_imports sample_args) (0, 0, 0) (Some False) =
          (400, 300, 9 / 11)"
    by (simp add: project_def camera_defs ref_Viewport_pixelProjectionMatrix ref_perspective_def
        ref_transformVector_def vec4_transformMat4_def upt_16 upt_4)
  then show ?thesis
    using project_topLeft_flips_y[of reference_imports
            "OrbitViewport_new reference_imports sample_args" "(0, 0, 0)"]
    by (simp add: sample_args_def)
qed

end
